theory Spec2Isabelle
  imports Complex_Main
begin

section \<open>Outfit simulator: colour analysis and the rule engine\<close>

text \<open>
  A shallow embedding of \<^verbatim>\<open>src/core/color_analyzer.py\<close> and
  \<^verbatim>\<open>src/core/rule_engine.py\<close>.

  Conventions of the embedding.
  \<^item> Python integers are \<^typ>\<open>int\<close>. Python floats are read as the real numbers they
    denote: a decimal literal such as \<^verbatim>\<open>0.299\<close> is the rational 299/1000 and
    \<^verbatim>\<open>math.sqrt\<close> is the real square root. The code computes in binary floating
    point, so its value can differ from the real one by a rounding error, and a
    comparison or a rounding of the code can go the other way where the real value
    sits on the threshold or the midpoint (a brightness of exactly 200, an average of
    exactly 99.805). The statements below do not depend on such a tie: the inputs that
    are evaluated are away from every threshold or compare a value with itself, and the
    general statements either involve no float or are ranges and bounds that hold on
    either side.
  \<^item> Python strings are \<^typ>\<open>string\<close>, holding the UTF-8 bytes of the source's literal;
    two Python strings are equal exactly when their encodings are. Each literal of the
    source is a named constant below, with its English gloss and its code points.
  \<^item> The fixed texts of suggestions and messages, which the code only stores and never
    inspects, are the constructors of a datatype, one per text (with the value a format
    string inserts as argument).
\<close>

subsection \<open>String constants of the source\<close>

paragraph \<open>Colour names returned by the classifier\<close>

definition n_black :: string where
  \<comment> \<open>black, code points U+9ED1\<close>
  "n_black = [CHR 0xE9, CHR 0xBB, CHR 0x91]"

definition n_white :: string where
  \<comment> \<open>white, code points U+767D\<close>
  "n_white = [CHR 0xE7, CHR 0x99, CHR 0xBD]"

definition n_gray :: string where
  \<comment> \<open>gray, code points U+7070\<close>
  "n_gray = [CHR 0xE7, CHR 0x81, CHR 0xB0]"

definition n_brown :: string where
  \<comment> \<open>brown, code points U+68D5\<close>
  "n_brown = [CHR 0xE6, CHR 0xA3, CHR 0x95]"

definition n_orange :: string where
  \<comment> \<open>orange, code points U+6A59\<close>
  "n_orange = [CHR 0xE6, CHR 0xA9, CHR 0x99]"

definition n_pale_yellow :: string where
  \<comment> \<open>pale-yellow, code points U+6D45 U+9EC4\<close>
  "n_pale_yellow = [CHR 0xE6, CHR 0xB5, CHR 0x85, CHR 0xE9, CHR 0xBB, CHR 0x84]"

definition n_yellow :: string where
  \<comment> \<open>yellow, code points U+9EC4\<close>
  "n_yellow = [CHR 0xE9, CHR 0xBB, CHR 0x84]"

definition n_pink :: string where
  \<comment> \<open>pink, code points U+7C89\<close>
  "n_pink = [CHR 0xE7, CHR 0xB2, CHR 0x89]"

definition n_deep_red :: string where
  \<comment> \<open>deep-red, code points U+6DF1 U+7EA2\<close>
  "n_deep_red = [CHR 0xE6, CHR 0xB7, CHR 0xB1, CHR 0xE7, CHR 0xBA, CHR 0xA2]"

definition n_red :: string where
  \<comment> \<open>red, code points U+7EA2\<close>
  "n_red = [CHR 0xE7, CHR 0xBA, CHR 0xA2]"

definition n_pale_green :: string where
  \<comment> \<open>pale-green, code points U+6D45 U+7EFF\<close>
  "n_pale_green = [CHR 0xE6, CHR 0xB5, CHR 0x85, CHR 0xE7, CHR 0xBB, CHR 0xBF]"

definition n_deep_green :: string where
  \<comment> \<open>deep-green, code points U+6DF1 U+7EFF\<close>
  "n_deep_green = [CHR 0xE6, CHR 0xB7, CHR 0xB1, CHR 0xE7, CHR 0xBB, CHR 0xBF]"

definition n_green :: string where
  \<comment> \<open>green, code points U+7EFF\<close>
  "n_green = [CHR 0xE7, CHR 0xBB, CHR 0xBF]"

definition n_pale_blue :: string where
  \<comment> \<open>pale-blue, code points U+6D45 U+84DD\<close>
  "n_pale_blue = [CHR 0xE6, CHR 0xB5, CHR 0x85, CHR 0xE8, CHR 0x93, CHR 0x9D]"

definition n_deep_blue :: string where
  \<comment> \<open>deep-blue, code points U+6DF1 U+84DD\<close>
  "n_deep_blue = [CHR 0xE6, CHR 0xB7, CHR 0xB1, CHR 0xE8, CHR 0x93, CHR 0x9D]"

definition n_blue :: string where
  \<comment> \<open>blue, code points U+84DD\<close>
  "n_blue = [CHR 0xE8, CHR 0x93, CHR 0x9D]"

definition n_pale_purple :: string where
  \<comment> \<open>pale-purple, code points U+6D45 U+7D2B\<close>
  "n_pale_purple = [CHR 0xE6, CHR 0xB5, CHR 0x85, CHR 0xE7, CHR 0xB4, CHR 0xAB]"

definition n_deep_purple :: string where
  \<comment> \<open>deep-purple, code points U+6DF1 U+7D2B\<close>
  "n_deep_purple = [CHR 0xE6, CHR 0xB7, CHR 0xB1, CHR 0xE7, CHR 0xB4, CHR 0xAB]"

definition n_purple :: string where
  \<comment> \<open>purple, code points U+7D2B\<close>
  "n_purple = [CHR 0xE7, CHR 0xB4, CHR 0xAB]"

paragraph \<open>Tones\<close>

definition t_warm :: string where
  \<comment> \<open>warm, code points U+6696 U+8272\<close>
  "t_warm = [CHR 0xE6, CHR 0x9A, CHR 0x96, CHR 0xE8, CHR 0x89, CHR 0xB2]"

definition t_cold :: string where
  \<comment> \<open>cold, code points U+51B7 U+8272\<close>
  "t_cold = [CHR 0xE5, CHR 0x86, CHR 0xB7, CHR 0xE8, CHR 0x89, CHR 0xB2]"

definition t_neutral :: string where
  \<comment> \<open>neutral, code points U+4E2D U+6027\<close>
  "t_neutral = [CHR 0xE4, CHR 0xB8, CHR 0xAD, CHR 0xE6, CHR 0x80, CHR 0xA7]"

paragraph \<open>Style labels\<close>

definition s_shirt :: string where
  \<comment> \<open>shirt, code points U+886C U+886B\<close>
  "s_shirt = [CHR 0xE8, CHR 0xA1, CHR 0xAC, CHR 0xE8, CHR 0xA1, CHR 0xAB]"

definition s_jacket :: string where
  \<comment> \<open>jacket, code points U+5916 U+5957\<close>
  "s_jacket = [CHR 0xE5, CHR 0xA4, CHR 0x96, CHR 0xE5, CHR 0xA5, CHR 0x97]"

definition s_leather_shoes :: string where
  \<comment> \<open>leather shoes, code points U+76AE U+978B\<close>
  "s_leather_shoes = [CHR 0xE7, CHR 0x9A, CHR 0xAE, CHR 0xE9, CHR 0x9E, CHR 0x8B]"

definition s_tshirt :: string where
  \<comment> \<open>T-shirt, code points U+0054 U+6064\<close>
  "s_tshirt = [CHR 0x54, CHR 0xE6, CHR 0x81, CHR 0xA4]"

definition s_hoodie :: string where
  \<comment> \<open>hoodie, code points U+536B U+8863\<close>
  "s_hoodie = [CHR 0xE5, CHR 0x8D, CHR 0xAB, CHR 0xE8, CHR 0xA1, CHR 0xA3]"

definition s_jeans :: string where
  \<comment> \<open>jeans, code points U+725B U+4ED4 U+88E4\<close>
  "s_jeans = [CHR 0xE7, CHR 0x89, CHR 0x9B, CHR 0xE4, CHR 0xBB, CHR 0x94, CHR 0xE8, CHR 0xA3, CHR 0xA4]"

definition s_casual_pants :: string where
  \<comment> \<open>casual trousers, code points U+4F11 U+95F2 U+88E4\<close>
  "s_casual_pants = [CHR 0xE4, CHR 0xBC, CHR 0x91, CHR 0xE9, CHR 0x97, CHR 0xB2, CHR 0xE8, CHR 0xA3, CHR 0xA4]"

definition s_sneakers :: string where
  \<comment> \<open>sneakers, code points U+8FD0 U+52A8 U+978B\<close>
  "s_sneakers = [CHR 0xE8, CHR 0xBF, CHR 0x90, CHR 0xE5, CHR 0x8A, CHR 0xA8, CHR 0xE9, CHR 0x9E, CHR 0x8B]"

paragraph \<open>Context types\<close>

definition c_formal_occasion :: string where
  \<comment> \<open>formal occasion, code points U+6B63 U+5F0F U+573A U+5408\<close>
  "c_formal_occasion = [CHR 0xE6, CHR 0xAD, CHR 0xA3, CHR 0xE5, CHR 0xBC, CHR 0x8F, CHR 0xE5, CHR 0x9C, CHR 0xBA, CHR 0xE5, CHR 0x90, CHR 0x88]"

definition c_business :: string where
  \<comment> \<open>business, code points U+5546 U+52A1\<close>
  "c_business = [CHR 0xE5, CHR 0x95, CHR 0x86, CHR 0xE5, CHR 0x8A, CHR 0xA1]"

definition c_work :: string where
  \<comment> \<open>work, code points U+5DE5 U+4F5C\<close>
  "c_work = [CHR 0xE5, CHR 0xB7, CHR 0xA5, CHR 0xE4, CHR 0xBD, CHR 0x9C]"

definition c_casual :: string where
  \<comment> \<open>casual, code points U+4F11 U+95F2\<close>
  "c_casual = [CHR 0xE4, CHR 0xBC, CHR 0x91, CHR 0xE9, CHR 0x97, CHR 0xB2]"

definition c_sport :: string where
  \<comment> \<open>sport, code points U+8FD0 U+52A8\<close>
  "c_sport = [CHR 0xE8, CHR 0xBF, CHR 0x90, CHR 0xE5, CHR 0x8A, CHR 0xA8]"

definition c_party :: string where
  \<comment> \<open>party, code points U+805A U+4F1A\<close>
  "c_party = [CHR 0xE8, CHR 0x81, CHR 0x9A, CHR 0xE4, CHR 0xBC, CHR 0x9A]"

paragraph \<open>Names of the five default rules\<close>

definition rn_three_color :: string where
  \<comment> \<open>three-colour principle, code points U+4E09 U+8272 U+539F U+5219\<close>
  "rn_three_color = [CHR 0xE4, CHR 0xB8, CHR 0x89, CHR 0xE8, CHR 0x89, CHR 0xB2, CHR 0xE5, CHR 0x8E, CHR 0x9F, CHR 0xE5, CHR 0x88, CHR 0x99]"

definition rn_light_top :: string where
  \<comment> \<open>light top, dark bottom, code points U+4E0A U+6D45 U+4E0B U+6DF1 U+539F U+5219\<close>
  "rn_light_top = [CHR 0xE4, CHR 0xB8, CHR 0x8A, CHR 0xE6, CHR 0xB5, CHR 0x85, CHR 0xE4, CHR 0xB8, CHR 0x8B, CHR 0xE6, CHR 0xB7, CHR 0xB1, CHR 0xE5, CHR 0x8E, CHR 0x9F, CHR 0xE5, CHR 0x88, CHR 0x99]"

definition rn_forbidden :: string where
  \<comment> \<open>forbidden colour combination, code points U+7981 U+5FCC U+989C U+8272 U+7EC4 U+5408\<close>
  "rn_forbidden = [CHR 0xE7, CHR 0xA6, CHR 0x81, CHR 0xE5, CHR 0xBF, CHR 0x8C, CHR 0xE9, CHR 0xA2, CHR 0x9C, CHR 0xE8, CHR 0x89, CHR 0xB2, CHR 0xE7, CHR 0xBB, CHR 0x84, CHR 0xE5, CHR 0x90, CHR 0x88]"

definition rn_style :: string where
  \<comment> \<open>style coordination, code points U+6B3E U+5F0F U+534F U+8C03\<close>
  "rn_style = [CHR 0xE6, CHR 0xAC, CHR 0xBE, CHR 0xE5, CHR 0xBC, CHR 0x8F, CHR 0xE5, CHR 0x8D, CHR 0x8F, CHR 0xE8, CHR 0xB0, CHR 0x83]"

definition rn_context :: string where
  \<comment> \<open>context appropriateness, code points U+573A U+666F U+9002 U+5B9C\<close>
  "rn_context = [CHR 0xE5, CHR 0x9C, CHR 0xBA, CHR 0xE6, CHR 0x99, CHR 0xAF, CHR 0xE9, CHR 0x80, CHR 0x82, CHR 0xE5, CHR 0xAE, CHR 0x9C]"

lemmas color_name_defs =
  n_black_def n_white_def n_gray_def n_brown_def n_orange_def n_pale_yellow_def n_yellow_def
  n_pink_def n_deep_red_def n_red_def n_pale_green_def n_deep_green_def n_green_def
  n_pale_blue_def n_deep_blue_def n_blue_def n_pale_purple_def n_deep_purple_def n_purple_def

lemmas tone_defs = t_warm_def t_cold_def t_neutral_def



lemmas rule_name_defs =
  rn_three_color_def rn_light_top_def rn_forbidden_def rn_style_def rn_context_def

subsection \<open>color\_analyzer.py\<close>

type_synonym rgb = "int \<times> int \<times> int"

record color_info =
  name :: string
  tone :: string

definition brightness_rgb :: "int \<Rightarrow> int \<Rightarrow> int \<Rightarrow> real" where
  \<comment> \<open>\<^verbatim>\<open>0.299 * r + 0.587 * g + 0.114 * b\<close>\<close>
  "brightness_rgb r g b =
     0.299 * real_of_int r + 0.587 * real_of_int g + 0.114 * real_of_int b"

definition classify_color_type :: "rgb \<Rightarrow> color_info" where
  "classify_color_type rgb =
     (case rgb of (r, g, b) \<Rightarrow>
      let brightness = brightness_rgb r g b;
          max_val = max r (max g b);
          min_val = min r (min g b);
          diff = max_val - min_val
      in
      if diff < 30 then
        (if brightness < 30 then \<lparr>name = n_black, tone = t_neutral\<rparr>
         else if brightness > 225 then \<lparr>name = n_white, tone = t_neutral\<rparr>
         else \<lparr>name = n_gray, tone = t_neutral\<rparr>)
      else
      let total = r + g + b in
      if total = 0 then \<lparr>name = n_black, tone = t_neutral\<rparr>
      else
      let r_ratio = real_of_int r / real_of_int total;
          g_ratio = real_of_int g / real_of_int total;
          b_ratio = real_of_int b / real_of_int total
      in
      if brightness < 150 \<and> r > 50 \<and> g > 30 \<and> real_of_int b < real_of_int (min r g) * 0.7
           \<and> r > b \<and> g > b
      then \<lparr>name = n_brown, tone = t_warm\<rparr>
      else if r_ratio > 0.35 \<and> g_ratio > 0.3 \<and> r > b \<and> g > b then
        (if real_of_int r > real_of_int g * 1.15 \<and> g > 100
         then \<lparr>name = n_orange, tone = t_warm\<rparr>
         else if brightness > 200 then \<lparr>name = n_pale_yellow, tone = t_warm\<rparr>
         else \<lparr>name = n_yellow, tone = t_warm\<rparr>)
      else if r_ratio > 0.4 \<and> r > g \<and> r > b then
        (if brightness > 200 then \<lparr>name = n_pink, tone = t_warm\<rparr>
         else if brightness < 80 then \<lparr>name = n_deep_red, tone = t_warm\<rparr>
         else \<lparr>name = n_red, tone = t_warm\<rparr>)
      else if g_ratio > 0.35 \<and> g > r \<and> g > b then
        (if brightness > 200 then \<lparr>name = n_pale_green, tone = t_cold\<rparr>
         else if brightness < 100 then \<lparr>name = n_deep_green, tone = t_cold\<rparr>
         else \<lparr>name = n_green, tone = t_cold\<rparr>)
      else if b_ratio > 0.4 \<and> b > r \<and> b > g then
        (if brightness > 200 then \<lparr>name = n_pale_blue, tone = t_cold\<rparr>
         else if brightness < 100 then \<lparr>name = n_deep_blue, tone = t_cold\<rparr>
         else \<lparr>name = n_blue, tone = t_cold\<rparr>)
      else if r_ratio > 0.3 \<and> b_ratio > 0.3 \<and> r > g \<and> b > g then
        (if brightness > 200 then \<lparr>name = n_pale_purple, tone = t_cold\<rparr>
         else if brightness < 100 then \<lparr>name = n_deep_purple, tone = t_cold\<rparr>
         else \<lparr>name = n_purple, tone = t_cold\<rparr>)
      else if max_val = r then \<lparr>name = n_red, tone = t_warm\<rparr>
      else if max_val = g then \<lparr>name = n_green, tone = t_cold\<rparr>
      else \<lparr>name = n_blue, tone = t_cold\<rparr>)"

definition calculate_color_distance :: "rgb \<Rightarrow> rgb \<Rightarrow> real" where
  "calculate_color_distance color1 color2 =
     (case color1 of (r1, g1, b1) \<Rightarrow> case color2 of (r2, g2, b2) \<Rightarrow>
        sqrt (real_of_int ((r1 - r2)\<^sup>2 + (g1 - g2)\<^sup>2 + (b1 - b2)\<^sup>2)))"

text \<open>The texts that \<^verbatim>\<open>evaluate_color_combo\<close> appends to \<^verbatim>\<open>suggestions\<close>, in the order
  in which they occur in the source.\<close>

datatype combo_suggestion =
    ProvideAtLeastOneColor
  | SingleColorElegant
  | TooManyColors nat
  | ThreeColorCompliant
  | WarmColdNeedsNeutral
  | WarmColdWithNeutral
  | TooSimilar
  | LowContrast
  | TooHighContrast
  | ComplementaryNeedsNeutral
  | ComplementaryWithNeutral
  | AllNeutral
  | NeutralWithColor
  | ExcellentCombo

text \<open>The \<^verbatim>\<open>analysis\<close> dictionary; a key that the returned dictionary does not have is
  \<^const>\<open>None\<close>.\<close>

record combo_analysis =
  color_count :: "nat option"
  color_types :: "string list option"
  tones :: "string list option"
  contrast_scores :: "real list option"

record combo_result =
  combo_score :: int
  combo_suggestions :: "combo_suggestion list"
  analysis :: combo_analysis

text \<open>The running pair \<^verbatim>\<open>(score, suggestions)\<close> that the numbered sections of
  \<^verbatim>\<open>evaluate_color_combo\<close> update one after the other.\<close>

type_synonym combo_acc = "int \<times> combo_suggestion list"

definition three_color_check :: "nat \<Rightarrow> combo_acc \<Rightarrow> combo_acc" where
  "three_color_check n acc =
     (case acc of (score, sugg) \<Rightarrow>
        if n > 3 then (score - 20, sugg @ [TooManyColors n])
        else if n = 3 then (score, sugg @ [ThreeColorCompliant])
        else (score, sugg))"

definition tone_check :: "nat \<Rightarrow> nat \<Rightarrow> nat \<Rightarrow> combo_acc \<Rightarrow> combo_acc" where
  "tone_check warm_count cold_count neutral_count acc =
     (case acc of (score, sugg) \<Rightarrow>
        if warm_count > 0 \<and> cold_count > 0 then
          (if neutral_count = 0 then (score - 15, sugg @ [WarmColdNeedsNeutral])
           else (score, sugg @ [WarmColdWithNeutral]))
        else (score, sugg))"

text \<open>The double loop over \<^verbatim>\<open>i < j\<close>: the contrasts in the order in which they are
  appended to \<^verbatim>\<open>analysis['contrast_scores']\<close>.\<close>

fun pair_contrasts :: "rgb list \<Rightarrow> real list" where
  "pair_contrasts [] = []"
| "pair_contrasts (c # cs) = map (calculate_color_distance c) cs @ pair_contrasts cs"

text \<open>\<^verbatim>\<open>min_contrast\<close> starts as \<^verbatim>\<open>float('inf')\<close>, which is \<^const>\<open>None\<close> here.\<close>

definition min_with_inf :: "real option \<Rightarrow> real \<Rightarrow> real option" where
  "min_with_inf m c = (case m of None \<Rightarrow> Some c | Some x \<Rightarrow> Some (min x c))"

definition less_with_inf :: "real option \<Rightarrow> real \<Rightarrow> bool" where
  "less_with_inf m t = (case m of None \<Rightarrow> False | Some x \<Rightarrow> x < t)"

definition contrast_check :: "real option \<Rightarrow> real \<Rightarrow> combo_acc \<Rightarrow> combo_acc" where
  "contrast_check min_contrast max_contrast acc =
     (case acc of (score, sugg) \<Rightarrow>
        let (score1, sugg1) =
              (if less_with_inf min_contrast 50 then (score - 20, sugg @ [TooSimilar])
               else if less_with_inf min_contrast 100 then (score - 10, sugg @ [LowContrast])
               else (score, sugg))
        in if max_contrast > 400 then (score1 - 10, sugg1 @ [TooHighContrast])
           else (score1, sugg1))"

definition complementary_pairs :: "(string list \<times> string list) list" where
  "complementary_pairs =
     [([n_red, n_deep_red, n_pink], [n_green, n_deep_green, n_pale_green]),
      ([n_blue, n_deep_blue, n_pale_blue], [n_orange, n_yellow, n_pale_yellow]),
      ([n_yellow, n_pale_yellow], [n_purple, n_deep_purple, n_pale_purple])]"

definition has_complementary :: "string list \<Rightarrow> bool" where
  \<comment> \<open>the loop over \<^verbatim>\<open>complementary_pairs\<close> that sets the flag and breaks\<close>
  "has_complementary types =
     list_ex (\<lambda>(pair1, pair2).
        list_ex (\<lambda>c. c \<in> set pair1) types \<and> list_ex (\<lambda>c. c \<in> set pair2) types)
       complementary_pairs"

definition complementary_check :: "bool \<Rightarrow> nat \<Rightarrow> combo_acc \<Rightarrow> combo_acc" where
  "complementary_check has_comp neutral_count acc =
     (case acc of (score, sugg) \<Rightarrow>
        if has_comp \<and> neutral_count = 0 then (score - 15, sugg @ [ComplementaryNeedsNeutral])
        else if has_comp then (score, sugg @ [ComplementaryWithNeutral])
        else (score, sugg))"

definition neutral_usage_check :: "nat \<Rightarrow> nat \<Rightarrow> combo_acc \<Rightarrow> combo_acc" where
  "neutral_usage_check neutral_count n acc =
     (case acc of (score, sugg) \<Rightarrow>
        if neutral_count = n then (score, sugg @ [AllNeutral])
        else if neutral_count > 0 \<and> neutral_count < n then (score, sugg @ [NeutralWithColor])
        else (score, sugg))"

definition clamp_and_praise :: "combo_acc \<Rightarrow> combo_acc" where
  "clamp_and_praise acc =
     (case acc of (score, sugg) \<Rightarrow>
        let score1 = max 0 (min 100 score)
        in if score1 \<ge> 80 \<and> sugg = [] then (score1, sugg @ [ExcellentCombo])
           else (score1, sugg))"

definition evaluate_color_combo :: "rgb list \<Rightarrow> combo_result" where
  \<comment> \<open>the final \<^verbatim>\<open>round(score, 1)\<close> is applied to an \<^verbatim>\<open>int\<close> and returns it unchanged\<close>
  "evaluate_color_combo colors_list =
     (if colors_list = [] then
        \<lparr>combo_score = 0, combo_suggestions = [ProvideAtLeastOneColor],
         analysis = \<lparr>color_count = None, color_types = None, tones = None,
                      contrast_scores = None\<rparr>\<rparr>
      else if length colors_list = 1 then
        \<lparr>combo_score = 100, combo_suggestions = [SingleColorElegant],
         analysis = \<lparr>color_count = Some 1, color_types = None, tones = None,
                      contrast_scores = None\<rparr>\<rparr>
      else
        let n = length colors_list;
            acc1 = three_color_check n (100, []);
            types = map (\<lambda>color. name (classify_color_type color)) colors_list;
            tns = map (\<lambda>color. tone (classify_color_type color)) colors_list;
            warm_count = count_list tns t_warm;
            cold_count = count_list tns t_cold;
            neutral_count = count_list tns t_neutral;
            acc3 = tone_check warm_count cold_count neutral_count acc1;
            contrasts = pair_contrasts colors_list;
            min_contrast = foldl min_with_inf None contrasts;
            max_contrast = foldl max 0 contrasts;
            acc4 = contrast_check min_contrast max_contrast acc3;
            acc5 = complementary_check (has_complementary types) neutral_count acc4;
            acc6 = neutral_usage_check neutral_count n acc5;
            (score, sugg) = clamp_and_praise acc6
        in \<lparr>combo_score = score, combo_suggestions = sugg,
            analysis = \<lparr>color_count = Some n, color_types = Some types, tones = Some tns,
                         contrast_scores = Some contrasts\<rparr>\<rparr>)"

subsection \<open>rule\_engine.py: results, outfits and rules\<close>

datatype RuleSeverity = INFO | WARNING | ERROR

text \<open>An element of a colour list is an RGB tuple or anything else, which the rules read
  through \<^verbatim>\<open>str(color)\<close> as a colour name.\<close>

datatype color = Tuple rgb | Named string

text \<open>The fixed texts of \<^verbatim>\<open>RuleResult.message\<close> and \<^verbatim>\<open>RuleResult.suggestion\<close>;
  \<^verbatim>\<open>OtherMessage\<close> and \<^verbatim>\<open>OtherSuggestion\<close> hold the text of a rule that is not one
  of the five of this module.\<close>

datatype rule_message =
    NoColorInfo
  | NoStyleInfo
  | NoContextInfo
  | ThreeColorOk int
  | ThreeColorViolated int int
  | NoTopBottomColors
  | LightTopDarkBottomOk
  | LightTopDarkBottomViolated real real
  | NoForbiddenCombo
  | ForbiddenComboFound "(string set \<times> string set) list"
  | StyleUndetermined
  | StyleUnified
  | StylePartlyMixed
  | StyleConflict
  | ContextTypeMissing
  | ContextNoRequirement string
  | ContextSuitable string
  | ContextNeedsFormal string
  | ContextNeedsCasual string
  | OtherMessage string

datatype rule_suggestion =
    ReduceMainColors int
  | LighterTopOrDarkerBottom
  | AvoidComplementaryColors
  | UnifyStyleForBetterLook
  | UnifyFormalOrCasual
  | ChooseFormalPieces
  | ChooseCasualPieces
  | OtherSuggestion string

record RuleResult =
  passed :: bool
  score :: real
  message :: rule_message
  suggestion :: "rule_suggestion option"
  severity :: RuleSeverity
  weight :: real

definition skipped :: "rule_message \<Rightarrow> RuleResult" where
  \<comment> \<open>the early return of the three base classes; \<^verbatim>\<open>suggestion\<close> and \<^verbatim>\<open>weight\<close>
      take the dataclass defaults\<close>
  "skipped m =
     \<lparr>passed = True, score = 100, message = m, suggestion = None, severity = INFO,
      weight = 1\<rparr>"

text \<open>The \<^verbatim>\<open>outfit_data\<close> dictionary. Each rule reads a section with
  \<^verbatim>\<open>.get(key, [])\<close> or \<^verbatim>\<open>.get(key, {})\<close>, so a missing key is the empty value.
  The key \<^verbatim>\<open>'context'\<close> is the field \<open>context_dict\<close>.\<close>

record outfit_data =
  colors :: "color list"
  styles :: "string \<rightharpoonup> string"
  context_dict :: "string \<rightharpoonup> string"
  top_colors :: "color list"
  bottom_colors :: "color list"

definition dict_get :: "('k \<rightharpoonup> 'v) \<Rightarrow> 'k \<Rightarrow> 'v \<Rightarrow> 'v" where
  "dict_get d k dflt = (case d k of None \<Rightarrow> dflt | Some v \<Rightarrow> v)"

paragraph \<open>The three abstract rule classes\<close>

definition ColorRule_evaluate ::
    "(color list \<Rightarrow> outfit_data \<Rightarrow> RuleResult) \<Rightarrow> outfit_data \<Rightarrow> RuleResult" where
  "ColorRule_evaluate evaluate_colors data =
     (if colors data = [] then skipped NoColorInfo
      else evaluate_colors (colors data) data)"

definition StyleRule_evaluate ::
    "((string \<rightharpoonup> string) \<Rightarrow> outfit_data \<Rightarrow> RuleResult) \<Rightarrow> outfit_data \<Rightarrow> RuleResult" where
  "StyleRule_evaluate evaluate_styles data =
     (if styles data = Map.empty then skipped NoStyleInfo
      else evaluate_styles (styles data) data)"

definition ContextRule_evaluate ::
    "((string \<rightharpoonup> string) \<Rightarrow> outfit_data \<Rightarrow> RuleResult) \<Rightarrow> outfit_data \<Rightarrow> RuleResult" where
  "ContextRule_evaluate evaluate_context data =
     (if context_dict data = Map.empty then skipped NoContextInfo
      else evaluate_context (context_dict data) data)"

paragraph \<open>ThreeColorRule\<close>

definition color_name_of :: "color \<Rightarrow> string" where
  "color_name_of c =
     (case c of Tuple t \<Rightarrow> name (classify_color_type t) | Named s \<Rightarrow> s)"

definition neutral_colors :: "string set" where
  "neutral_colors = {n_black, n_white, n_gray}"

definition main_colors_of :: "color list \<Rightarrow> string list" where
  \<comment> \<open>the loop that collects \<^verbatim>\<open>main_colors\<close>\<close>
  "main_colors_of cs =
     foldl (\<lambda>main_colors c.
        let color_name = color_name_of c in
        if color_name \<notin> neutral_colors then
          (if color_name \<notin> set main_colors then main_colors @ [color_name] else main_colors)
        else main_colors) [] cs"

definition ThreeColorRule_evaluate_colors ::
    "int \<Rightarrow> real \<Rightarrow> color list \<Rightarrow> outfit_data \<Rightarrow> RuleResult" where
  "ThreeColorRule_evaluate_colors max_colors w cs data =
     (let num_main_colors = int (length (main_colors_of cs)) in
      if num_main_colors \<le> max_colors then
        \<lparr>passed = True, score = 100, message = ThreeColorOk num_main_colors,
         suggestion = None, severity = INFO, weight = w\<rparr>
      else
        \<lparr>passed = False,
         score = real_of_int (max 0 (100 - (num_main_colors - max_colors) * 20)),
         message = ThreeColorViolated num_main_colors max_colors,
         suggestion = Some (ReduceMainColors max_colors), severity = WARNING, weight = w\<rparr>)"

paragraph \<open>LightTopDarkBottomRule\<close>

definition brightness_map :: "string \<rightharpoonup> real" where
  "brightness_map =
     map_of
      [(n_black, 0), (n_deep_blue, 50), (n_deep_green, 50), (n_deep_red, 50),
       (n_deep_purple, 50), (n_gray, 128), (n_brown, 100), (n_blue, 150), (n_green, 150),
       (n_red, 150), (n_purple, 150), (n_pale_blue, 200), (n_pale_green, 200),
       (n_pink, 220), (n_pale_purple, 200), (n_white, 255), (n_pale_yellow, 240),
       (n_yellow, 220), (n_orange, 200)]"

definition get_brightness :: "color \<Rightarrow> real" where
  "get_brightness c =
     (case c of Tuple (r, g, b) \<Rightarrow> brightness_rgb r g b
      | Named s \<Rightarrow> dict_get brightness_map s 128)"

definition average_brightness :: "color list \<Rightarrow> real" where
  \<comment> \<open>\<^verbatim>\<open>sum(get_brightness(c) for c in cs) / len(cs)\<close>, reached with \<^verbatim>\<open>cs\<close> non-empty only\<close>
  "average_brightness cs = sum_list (map get_brightness cs) / real (length cs)"

definition LightTopDarkBottomRule_evaluate_colors ::
    "real \<Rightarrow> color list \<Rightarrow> outfit_data \<Rightarrow> RuleResult" where
  "LightTopDarkBottomRule_evaluate_colors w cs data =
     (let tops = top_colors data; bottoms = bottom_colors data in
      if tops = [] \<or> bottoms = [] then
        \<lparr>passed = True, score = 100, message = NoTopBottomColors, suggestion = None,
         severity = INFO, weight = w\<rparr>
      else
        let top_brightness = average_brightness tops;
            bottom_brightness = average_brightness bottoms
        in
        if top_brightness \<ge> bottom_brightness then
          \<lparr>passed = True, score = 100, message = LightTopDarkBottomOk, suggestion = None,
           severity = INFO, weight = w\<rparr>
        else
          let diff = bottom_brightness - top_brightness in
          \<lparr>passed = False, score = max 0 (100 - diff / 2),
           message = LightTopDarkBottomViolated top_brightness bottom_brightness,
           suggestion = Some LighterTopOrDarkerBottom, severity = WARNING, weight = w\<rparr>)"

paragraph \<open>ForbiddenColorComboRule\<close>

definition forbidden_combos :: "(string set \<times> string set) list" where
  "forbidden_combos =
     [({n_red, n_deep_red, n_pink}, {n_green, n_deep_green, n_pale_green}),
      ({n_purple, n_deep_purple, n_pale_purple}, {n_yellow, n_pale_yellow, n_orange}),
      ({n_blue, n_deep_blue, n_pale_blue}, {n_orange, n_yellow, n_pale_yellow})]"

definition forbidden_violations :: "color list \<Rightarrow> (string set \<times> string set) list" where
  \<comment> \<open>the loop that collects \<^verbatim>\<open>violations\<close>, one entry per forbidden pair that is hit\<close>
  "forbidden_violations cs =
     (let color_names = map color_name_of cs; color_set = set color_names in
      filter (\<lambda>(combo1, combo2). color_set \<inter> combo1 \<noteq> {} \<and> color_set \<inter> combo2 \<noteq> {})
        forbidden_combos)"

definition ForbiddenColorComboRule_evaluate_colors ::
    "real \<Rightarrow> color list \<Rightarrow> outfit_data \<Rightarrow> RuleResult" where
  "ForbiddenColorComboRule_evaluate_colors w cs data =
     (let violations = forbidden_violations cs in
      if violations = [] then
        \<lparr>passed = True, score = 100, message = NoForbiddenCombo, suggestion = None,
         severity = INFO, weight = w\<rparr>
      else
        \<lparr>passed = False, score = 50, message = ForbiddenComboFound violations,
         suggestion = Some AvoidComplementaryColors, severity = ERROR, weight = w\<rparr>)"

paragraph \<open>StyleCoordinationRule\<close>

definition formal_styles :: "string set" where
  "formal_styles = {s_shirt, s_jacket, s_leather_shoes}"

definition casual_styles :: "string set" where
  "casual_styles = {s_tshirt, s_hoodie, s_jeans, s_casual_pants, s_sneakers}"

definition get_style_type :: "string \<Rightarrow> string" where
  "get_style_type style =
     (if style \<in> formal_styles then ''formal''
      else if style \<in> casual_styles then ''casual''
      else ''unknown'')"

definition style_types :: "(string \<rightharpoonup> string) \<Rightarrow> string list" where
  \<comment> \<open>the list \<^verbatim>\<open>types\<close>: the types of the three slots that are not \<^verbatim>\<open>'unknown'\<close>\<close>
  "style_types st =
     (let top_type = get_style_type (dict_get st ''top'' '''');
          bottom_type = get_style_type (dict_get st ''bottom'' '''');
          shoe_type = get_style_type (dict_get st ''shoes'' '''')
      in filter (\<lambda>t. t \<noteq> ''unknown'') [top_type, bottom_type, shoe_type])"

definition StyleCoordinationRule_evaluate_styles ::
    "real \<Rightarrow> (string \<rightharpoonup> string) \<Rightarrow> outfit_data \<Rightarrow> RuleResult" where
  "StyleCoordinationRule_evaluate_styles w st data =
     (let types = style_types st in
      if types = [] then
        \<lparr>passed = True, score = 100, message = StyleUndetermined, suggestion = None,
         severity = INFO, weight = w\<rparr>
      else
        let unique_types = set types in
        if card unique_types = 1 then
          \<lparr>passed = True, score = 100, message = StyleUnified, suggestion = None,
           severity = INFO, weight = w\<rparr>
        else if card unique_types = 2 then
          \<lparr>passed = True, score = 70, message = StylePartlyMixed,
           suggestion = Some UnifyStyleForBetterLook, severity = WARNING, weight = w\<rparr>
        else
          \<lparr>passed = False, score = 40, message = StyleConflict,
           suggestion = Some UnifyFormalOrCasual, severity = ERROR, weight = w\<rparr>)"

paragraph \<open>ContextAppropriateRule\<close>

definition context_styles :: "string \<rightharpoonup> string set" where
  "context_styles =
     map_of
      [(c_formal_occasion, {''formal''}), (c_business, {''formal''}),
       (c_work, {''formal'', ''casual''}), (c_casual, {''casual''}),
       (c_sport, {''casual''}), (c_party, {''casual'', ''formal''})]"

definition ContextAppropriateRule_evaluate_context ::
    "real \<Rightarrow> (string \<rightharpoonup> string) \<Rightarrow> outfit_data \<Rightarrow> RuleResult" where
  "ContextAppropriateRule_evaluate_context w ctx data =
     (let context_type = dict_get ctx ''type'' ''''; st = styles data in
      if context_type = '''' then
        \<lparr>passed = True, score = 100, message = ContextTypeMissing, suggestion = None,
         severity = INFO, weight = w\<rparr>
      else
        let recommended_styles = dict_get context_styles context_type {} in
        if recommended_styles = {} then
          \<lparr>passed = True, score = 100, message = ContextNoRequirement context_type,
           suggestion = None, severity = INFO, weight = w\<rparr>
        else
          let slots = [dict_get st ''top'' '''', dict_get st ''bottom'' '''',
                       dict_get st ''shoes'' ''''];
              current_formal = list_ex (\<lambda>s. s \<in> formal_styles) slots;
              current_casual = list_ex (\<lambda>s. s \<in> casual_styles) slots;
              is_formal_ok = (''formal'' \<in> recommended_styles \<and> current_formal);
              is_casual_ok = (''casual'' \<in> recommended_styles \<and> current_casual)
          in
          if is_formal_ok \<or> is_casual_ok then
            \<lparr>passed = True, score = 100, message = ContextSuitable context_type,
             suggestion = None, severity = INFO, weight = w\<rparr>
          else if ''formal'' \<in> recommended_styles then
            \<lparr>passed = False, score = 60, message = ContextNeedsFormal context_type,
             suggestion = Some ChooseFormalPieces, severity = WARNING, weight = w\<rparr>
          else
            \<lparr>passed = False, score = 60, message = ContextNeedsCasual context_type,
             suggestion = Some ChooseCasualPieces, severity = WARNING, weight = w\<rparr>)"

paragraph \<open>Rule objects and dynamic dispatch\<close>

text \<open>The class of a rule object with the attributes its constructor sets beyond those of
  \<^verbatim>\<open>BaseRule\<close>. \<^verbatim>\<open>OtherRule\<close> is a subclass defined outside this module, given by
  its \<^verbatim>\<open>evaluate\<close> method.\<close>

datatype rule_class =
    ThreeColorRule int
  | LightTopDarkBottomRule
  | ForbiddenColorComboRule
  | StyleCoordinationRule
  | ContextAppropriateRule
  | OtherRule "outfit_data \<Rightarrow> RuleResult"

datatype rule_description =
    ThreeColorDescription int
  | LightTopDarkBottomDescription
  | ForbiddenColorComboDescription
  | StyleCoordinationDescription
  | ContextAppropriateDescription
  | OtherDescription string

record BaseRule =
  rule_name :: string
  rule_description :: rule_description
  rule_weight :: real
  enabled :: bool
  rule_class :: rule_class

definition ThreeColorRule_init :: "int \<Rightarrow> real \<Rightarrow> BaseRule" where
  "ThreeColorRule_init max_colors w =
     \<lparr>rule_name = rn_three_color, rule_description = ThreeColorDescription max_colors,
      rule_weight = w, enabled = True, rule_class = ThreeColorRule max_colors\<rparr>"

definition LightTopDarkBottomRule_init :: "real \<Rightarrow> BaseRule" where
  "LightTopDarkBottomRule_init w =
     \<lparr>rule_name = rn_light_top, rule_description = LightTopDarkBottomDescription,
      rule_weight = w, enabled = True, rule_class = LightTopDarkBottomRule\<rparr>"

definition ForbiddenColorComboRule_init :: "real \<Rightarrow> BaseRule" where
  "ForbiddenColorComboRule_init w =
     \<lparr>rule_name = rn_forbidden, rule_description = ForbiddenColorComboDescription,
      rule_weight = w, enabled = True, rule_class = ForbiddenColorComboRule\<rparr>"

definition StyleCoordinationRule_init :: "real \<Rightarrow> BaseRule" where
  "StyleCoordinationRule_init w =
     \<lparr>rule_name = rn_style, rule_description = StyleCoordinationDescription,
      rule_weight = w, enabled = True, rule_class = StyleCoordinationRule\<rparr>"

definition ContextAppropriateRule_init :: "real \<Rightarrow> BaseRule" where
  "ContextAppropriateRule_init w =
     \<lparr>rule_name = rn_context, rule_description = ContextAppropriateDescription,
      rule_weight = w, enabled = True, rule_class = ContextAppropriateRule\<rparr>"

fun is_ColorRule :: "rule_class \<Rightarrow> bool" where
  "is_ColorRule (ThreeColorRule m) = True"
| "is_ColorRule LightTopDarkBottomRule = True"
| "is_ColorRule ForbiddenColorComboRule = True"
| "is_ColorRule c = False"

definition evaluate :: "BaseRule \<Rightarrow> outfit_data \<Rightarrow> RuleResult" where
  \<comment> \<open>\<^verbatim>\<open>rule.evaluate(outfit_data)\<close>: the method of the base class, which calls the method
      of the rule's own class\<close>
  "evaluate rule data =
     (case rule_class rule of
        ThreeColorRule max_colors \<Rightarrow>
          ColorRule_evaluate (ThreeColorRule_evaluate_colors max_colors (rule_weight rule)) data
      | LightTopDarkBottomRule \<Rightarrow>
          ColorRule_evaluate (LightTopDarkBottomRule_evaluate_colors (rule_weight rule)) data
      | ForbiddenColorComboRule \<Rightarrow>
          ColorRule_evaluate (ForbiddenColorComboRule_evaluate_colors (rule_weight rule)) data
      | StyleCoordinationRule \<Rightarrow>
          StyleRule_evaluate (StyleCoordinationRule_evaluate_styles (rule_weight rule)) data
      | ContextAppropriateRule \<Rightarrow>
          ContextRule_evaluate (ContextAppropriateRule_evaluate_context (rule_weight rule)) data
      | OtherRule f \<Rightarrow> f data)"

subsection \<open>rule\_engine.py: the rule library and the evaluator\<close>

text \<open>Rule objects are mutable and a library holds references to them: the same object may
  be registered twice, or in two libraries, and \<^verbatim>\<open>enable_rule\<close> changes the object, not
  the list. So the objects live in a store, and a library is a list of references. A
  reference below \<open>next_ref\<close> is one that a constructor has returned.\<close>

type_synonym ref = nat

record store =
  objects :: "ref \<Rightarrow> BaseRule"
  next_ref :: ref

definition new_object :: "BaseRule \<Rightarrow> store \<Rightarrow> ref \<times> store" where
  "new_object obj s =
     (next_ref s, s\<lparr>objects := (objects s)(next_ref s := obj), next_ref := Suc (next_ref s)\<rparr>)"

definition set_enabled :: "ref \<Rightarrow> bool \<Rightarrow> store \<Rightarrow> store" where
  \<comment> \<open>\<^verbatim>\<open>rule.enabled = b\<close>\<close>
  "set_enabled r b s = s\<lparr>objects := (objects s)(r := (objects s r)\<lparr>enabled := b\<rparr>)\<rparr>"

definition set_weight :: "ref \<Rightarrow> real \<Rightarrow> store \<Rightarrow> store" where
  \<comment> \<open>\<^verbatim>\<open>rule.weight = w\<close>\<close>
  "set_weight r w s = s\<lparr>objects := (objects s)(r := (objects s r)\<lparr>rule_weight := w\<rparr>)\<rparr>"

record RuleLibrary =
  rules :: "ref list"

definition RuleLibrary_init :: "store \<Rightarrow> RuleLibrary \<times> store" where
  \<comment> \<open>\<^verbatim>\<open>RuleLibrary()\<close>: the empty list, then \<^verbatim>\<open>_load_default_rules\<close>\<close>
  "RuleLibrary_init s0 =
     (let (r1, s1) = new_object (ThreeColorRule_init 3 1.5) s0;
          (r2, s2) = new_object (LightTopDarkBottomRule_init 1.2) s1;
          (r3, s3) = new_object (ForbiddenColorComboRule_init 1.8) s2;
          (r4, s4) = new_object (StyleCoordinationRule_init 1.5) s3;
          (r5, s5) = new_object (ContextAppropriateRule_init 1.3) s4
      in (\<lparr>rules = [] @ [r1] @ [r2] @ [r3] @ [r4] @ [r5]\<rparr>, s5))"

definition add_rule :: "RuleLibrary \<Rightarrow> ref \<Rightarrow> RuleLibrary" where
  "add_rule lib rule = lib\<lparr>rules := rules lib @ [rule]\<rparr>"

definition remove_rule :: "store \<Rightarrow> RuleLibrary \<Rightarrow> string \<Rightarrow> RuleLibrary" where
  "remove_rule s lib nm =
     lib\<lparr>rules := filter (\<lambda>r. rule_name (objects s r) \<noteq> nm) (rules lib)\<rparr>"

definition get_rule :: "store \<Rightarrow> RuleLibrary \<Rightarrow> string \<Rightarrow> ref option" where
  "get_rule s lib nm = find (\<lambda>r. rule_name (objects s r) = nm) (rules lib)"

definition enable_rule :: "store \<Rightarrow> RuleLibrary \<Rightarrow> string \<Rightarrow> store" where
  "enable_rule s lib nm =
     (case get_rule s lib nm of None \<Rightarrow> s | Some r \<Rightarrow> set_enabled r True s)"

definition disable_rule :: "store \<Rightarrow> RuleLibrary \<Rightarrow> string \<Rightarrow> store" where
  "disable_rule s lib nm =
     (case get_rule s lib nm of None \<Rightarrow> s | Some r \<Rightarrow> set_enabled r False s)"

definition get_enabled_rules :: "store \<Rightarrow> RuleLibrary \<Rightarrow> ref list" where
  "get_enabled_rules s lib = filter (\<lambda>r. enabled (objects s r)) (rules lib)"

definition configure_rule ::
    "store \<Rightarrow> RuleLibrary \<Rightarrow> string \<Rightarrow> real option \<Rightarrow> bool option \<Rightarrow> store" where
  "configure_rule s lib nm w e =
     (case get_rule s lib nm of
        None \<Rightarrow> s
      | Some r \<Rightarrow>
          let s1 = (case w of None \<Rightarrow> s | Some v \<Rightarrow> set_weight r v s)
          in (case e of None \<Rightarrow> s1 | Some b \<Rightarrow> set_enabled r b s1))"

paragraph \<open>The report\<close>

text \<open>One element of \<^verbatim>\<open>rule_results\<close>: the keys \<^verbatim>\<open>rule_name\<close> and
  \<^verbatim>\<open>rule_description\<close>, and the six keys copied from the rule's result.\<close>

record rule_outcome =
  outcome_rule_name :: string
  outcome_rule_description :: rule_description
  outcome :: RuleResult

record report_suggestion =
  suggestion_rule :: string
  suggestion_text :: rule_suggestion
  suggestion_severity :: RuleSeverity

record report_summary =
  total_rules :: nat
  passed_rules :: nat
  failed_rules :: nat
  errors :: nat
  warnings :: nat

record EvaluationReport =
  report_score :: real
  report_passed :: bool
  results :: "rule_outcome list"
  suggestions :: "report_suggestion list"
  summary :: report_summary

text \<open>\<^verbatim>\<open>round(x, 2)\<close>: the closest multiple of 1/100. On the exact real a tie goes to the
  even multiple; the code rounds the float it has computed, which at a tie of the real
  value lies a rounding error above or below it, so the code may return either
  neighbour there. What is proved of \<open>round2\<close> below (its range, two decimals, the
  distance to its argument) holds of both neighbours.\<close>

definition round_half_even :: "real \<Rightarrow> int" where
  "round_half_even x =
     (let f = \<lfloor>x\<rfloor>; d = x - real_of_int f in
      if d < 1 / 2 then f
      else if d > 1 / 2 then f + 1
      else if even f then f else f + 1)"

definition round2 :: "real \<Rightarrow> real" where
  "round2 x = real_of_int (round_half_even (x * 100)) / 100"

definition list_or :: "'a list option \<Rightarrow> 'a list \<Rightarrow> 'a list" where
  \<comment> \<open>\<^verbatim>\<open>xs or dflt\<close> for an optional list: \<^verbatim>\<open>None\<close> and \<^verbatim>\<open>[]\<close> are both false\<close>
  "list_or xs dflt = (case xs of None \<Rightarrow> dflt | Some v \<Rightarrow> if v = [] then dflt else v)"

definition dict_or_empty :: "('k \<rightharpoonup> 'v) option \<Rightarrow> ('k \<rightharpoonup> 'v)" where
  \<comment> \<open>\<^verbatim>\<open>d or {}\<close> for an optional dictionary\<close>
  "dict_or_empty d = (case d of None \<Rightarrow> Map.empty | Some m \<Rightarrow> m)"

definition build_outfit_data ::
    "color list option \<Rightarrow> (string \<rightharpoonup> string) option \<Rightarrow> (string \<rightharpoonup> string) option \<Rightarrow>
     color list option \<Rightarrow> color list option \<Rightarrow> outfit_data" where
  "build_outfit_data cs st ctx tops bottoms =
     \<lparr>colors = list_or cs [],
      styles = dict_or_empty st,
      context_dict = dict_or_empty ctx,
      top_colors = list_or tops (list_or cs []),
      bottom_colors = list_or bottoms (list_or cs [])\<rparr>"

text \<open>The loop over the enabled rules, with its three running values
  \<^verbatim>\<open>rule_results\<close>, \<^verbatim>\<open>total_weighted_score\<close> and \<^verbatim>\<open>total_weight\<close>.\<close>

definition evaluate_rule_step ::
    "store \<Rightarrow> outfit_data \<Rightarrow> rule_outcome list \<times> real \<times> real \<Rightarrow> ref \<Rightarrow>
     rule_outcome list \<times> real \<times> real" where
  "evaluate_rule_step s data acc r =
     (case acc of (rule_results, total_weighted_score, total_weight) \<Rightarrow>
        let rule = objects s r;
            result = (evaluate rule data)\<lparr>weight := rule_weight rule\<rparr>
        in (rule_results @
              [\<lparr>outcome_rule_name = rule_name rule,
                outcome_rule_description = rule_description rule,
                outcome = result\<rparr>],
            total_weighted_score + score result * weight result,
            total_weight + weight result))"

definition suggestion_given :: "rule_suggestion option \<Rightarrow> bool" where
  \<comment> \<open>the truth value of \<^verbatim>\<open>result['suggestion']\<close>: \<^verbatim>\<open>None\<close> and the empty text are false\<close>
  "suggestion_given sg =
     (case sg of None \<Rightarrow> False | Some t \<Rightarrow> t \<noteq> OtherSuggestion [])"

definition collect_suggestions :: "rule_outcome list \<Rightarrow> report_suggestion list" where
  "collect_suggestions rule_results =
     concat (map (\<lambda>res.
        case suggestion (outcome res) of
          None \<Rightarrow> []
        | Some t \<Rightarrow>
            if suggestion_given (Some t) then
              [\<lparr>suggestion_rule = outcome_rule_name res, suggestion_text = t,
                suggestion_severity = severity (outcome res)\<rparr>]
            else []) rule_results)"

definition RuleEvaluator_evaluate_outfit ::
    "store \<Rightarrow> RuleLibrary \<Rightarrow> color list option \<Rightarrow> (string \<rightharpoonup> string) option \<Rightarrow>
     (string \<rightharpoonup> string) option \<Rightarrow> color list option \<Rightarrow> color list option \<Rightarrow>
     EvaluationReport" where
  "RuleEvaluator_evaluate_outfit s lib cs st ctx tops bottoms =
     (let data = build_outfit_data cs st ctx tops bottoms;
          (rule_results, total_weighted_score, total_weight) =
             foldl (evaluate_rule_step s data) ([], 0, 0) (get_enabled_rules s lib);
          overall_score =
             (if total_weight > 0 then total_weighted_score / total_weight else 0);
          error_count = length (filter (\<lambda>res. severity (outcome res) = ERROR) rule_results);
          warning_count =
             length (filter (\<lambda>res. severity (outcome res) = WARNING) rule_results)
      in \<lparr>report_score = round2 overall_score,
          report_passed = (error_count = 0),
          results = rule_results,
          suggestions = collect_suggestions rule_results,
          summary =
            \<lparr>total_rules = length rule_results,
             passed_rules = length (filter (\<lambda>res. passed (outcome res)) rule_results),
             failed_rules = length (filter (\<lambda>res. \<not> passed (outcome res)) rule_results),
             errors = error_count,
             warnings = warning_count\<rparr>\<rparr>)"

definition evaluate_outfit ::
    "store \<Rightarrow> color list option \<Rightarrow> (string \<rightharpoonup> string) option \<Rightarrow>
     (string \<rightharpoonup> string) option \<Rightarrow> color list option \<Rightarrow> color list option \<Rightarrow>
     EvaluationReport" where
  \<comment> \<open>the module's function: \<^verbatim>\<open>create_evaluator()\<close> builds an evaluator on a new default
      library, in whatever store the call finds\<close>
  "evaluate_outfit s cs st ctx tops bottoms =
     (let (lib, s1) = RuleLibrary_init s
      in RuleEvaluator_evaluate_outfit s1 lib cs st ctx tops bottoms)"

subsection \<open>Notions used in the statements\<close>

definition names_unique :: "store \<Rightarrow> RuleLibrary \<Rightarrow> bool" where
  \<comment> \<open>the rules registered in the library have pairwise different names\<close>
  "names_unique s lib = distinct (map (\<lambda>r. rule_name (objects s r)) (rules lib))"



definition outcome_of :: "store \<Rightarrow> outfit_data \<Rightarrow> ref \<Rightarrow> rule_outcome" where
  \<comment> \<open>the element that one round of the evaluation loop appends to \<^verbatim>\<open>rule_results\<close>\<close>
  "outcome_of s data r =
     \<lparr>outcome_rule_name = rule_name (objects s r),
      outcome_rule_description = rule_description (objects s r),
      outcome = (evaluate (objects s r) data)\<lparr>weight := rule_weight (objects s r)\<rparr>\<rparr>"

subsection \<open>Example inputs\<close>

text \<open>The store in which no rule object has been created yet; its cells hold a
  placeholder that no reference reaches.\<close>

definition blank_rule :: BaseRule where
  "blank_rule =
     \<lparr>rule_name = [], rule_description = OtherDescription [], rule_weight = 1,
      enabled = False, rule_class = OtherRule (\<lambda>data. skipped (OtherMessage []))\<rparr>"

definition empty_store :: store where
  "empty_store = \<lparr>objects = (\<lambda>r. blank_rule), next_ref = 0\<rparr>"

definition default_library :: RuleLibrary where
  \<comment> \<open>\<^verbatim>\<open>RuleLibrary()\<close> as the first thing a program does\<close>
  "default_library = fst (RuleLibrary_init empty_store)"

definition default_store :: store where
  "default_store = snd (RuleLibrary_init empty_store)"


definition orange_purple :: outfit_data where
  "orange_purple =
     \<lparr>colors = [Tuple (255, 165, 0), Tuple (128, 0, 128)],
      styles = Map.empty, context_dict = Map.empty,
      top_colors = [Tuple (255, 165, 0), Tuple (128, 0, 128)],
      bottom_colors = [Tuple (255, 165, 0), Tuple (128, 0, 128)]\<rparr>"

definition doubled_library :: RuleLibrary where
  \<comment> \<open>the default library after \<^verbatim>\<open>library.add_rule(library.rules[0])\<close>: its first rule
      object is registered a second time\<close>
  "doubled_library = add_rule default_library 0"



section \<open>Properties\<close>

subsection \<open>Auxiliary facts\<close>

lemma sqrt_less_iff_sq: "0 \<le> c \<Longrightarrow> sqrt x < c \<longleftrightarrow> x < c\<^sup>2"
  using real_sqrt_less_iff [of x "c\<^sup>2"] by simp

lemma sqrt_gt_iff_sq: "0 \<le> c \<Longrightarrow> c < sqrt x \<longleftrightarrow> c\<^sup>2 < x"
  using real_sqrt_less_iff [of "c\<^sup>2" x] by simp

lemma clamp_and_praise_range:
  "0 \<le> fst (clamp_and_praise acc) \<and> fst (clamp_and_praise acc) \<le> 100"
  by (cases acc) (simp add: clamp_and_praise_def Let_def)


lemma classify_pure_red:
  "classify_color_type (255, 0, 0) = \<lparr>name = n_deep_red, tone = t_warm\<rparr>"
  by (simp add: classify_color_type_def brightness_rgb_def)

lemma classify_pure_green:
  "classify_color_type (0, 255, 0) = \<lparr>name = n_green, tone = t_cold\<rparr>"
  by (simp add: classify_color_type_def brightness_rgb_def)

lemma classify_pure_blue:
  "classify_color_type (0, 0, 255) = \<lparr>name = n_deep_blue, tone = t_cold\<rparr>"
  by (simp add: classify_color_type_def brightness_rgb_def)

lemma classify_pure_black:
  "classify_color_type (0, 0, 0) = \<lparr>name = n_black, tone = t_neutral\<rparr>"
  by (simp add: classify_color_type_def brightness_rgb_def)

lemma pair_contrasts_primaries:
  "pair_contrasts [(255, 0, 0), (0, 255, 0), (0, 0, 255)] =
     [sqrt 130050, sqrt 130050, sqrt 130050]"
  by (simp add: calculate_color_distance_def)

lemma has_complementary_primaries: "has_complementary [n_deep_red, n_green, n_deep_blue]"
  by (simp add: has_complementary_def complementary_pairs_def)

subsection \<open>The colour classifier on the primaries\<close>

text \<open>
  C1. The claim: \<^verbatim>\<open>classify_color_type\<close> gives red/warm on (255,0,0), black/neutral on
  (0,0,0) and blue/cold on (0,0,255). What the code computes: the brightness of pure red
  is 76.245, below the bound 80 of the red branch, and that of pure blue is 29.07, below
  the bound 100 of the blue branch, so the names are deep-red and deep-blue; the tones and
  the classification of black are as claimed.
\<close>

theorem classify_color_type_primaries:
  "classify_color_type (255, 0, 0) = \<lparr>name = n_deep_red, tone = t_warm\<rparr>
   \<and> n_deep_red \<noteq> n_red
   \<and> classify_color_type (0, 0, 0) = \<lparr>name = n_black, tone = t_neutral\<rparr>
   \<and> classify_color_type (0, 0, 255) = \<lparr>name = n_deep_blue, tone = t_cold\<rparr>
   \<and> n_deep_blue \<noteq> n_blue"
  by (simp add: classify_pure_red classify_pure_black classify_pure_blue color_name_defs)

subsection \<open>The combination score\<close>

text \<open>
  C4. On red, green, blue the combination score is 70: the three-colour section only
  notes compliance, the tones are one warm and two cold with no neutral (15 off), the
  three distances are all \<open>sqrt 130050\<close>, about 360.6, which is neither below 100 nor
  above 400, and deep-red with green is a complementary pair with no neutral (15 off).
  The suggestions record exactly these sections.
\<close>

theorem evaluate_color_combo_primaries:
  "evaluate_color_combo [(255, 0, 0), (0, 255, 0), (0, 0, 255)] =
     \<lparr>combo_score = 70,
      combo_suggestions =
        [ThreeColorCompliant, WarmColdNeedsNeutral, ComplementaryNeedsNeutral],
      analysis =
        \<lparr>color_count = Some 3,
         color_types = Some [n_deep_red, n_green, n_deep_blue],
         tones = Some [t_warm, t_cold, t_cold],
         contrast_scores = Some [sqrt 130050, sqrt 130050, sqrt 130050]\<rparr>\<rparr>
   \<and> 360.6 < sqrt 130050 \<and> sqrt 130050 < 360.7"
proof -
  let ?cs = "[(255, 0, 0), (0, 255, 0), (0, 0, 255)] :: rgb list"
  let ?d = "sqrt 130050"
  have types: "map (\<lambda>color. name (classify_color_type color)) ?cs
      = [n_deep_red, n_green, n_deep_blue]"
    by (simp add: classify_pure_red classify_pure_green classify_pure_blue)
  have tns: "map (\<lambda>color. tone (classify_color_type color)) ?cs = [t_warm, t_cold, t_cold]"
    by (simp add: classify_pure_red classify_pure_green classify_pure_blue)
  have counts:
    "count_list [t_warm, t_cold, t_cold] t_warm = 1"
    "count_list [t_warm, t_cold, t_cold] t_cold = 2"
    "count_list [t_warm, t_cold, t_cold] t_neutral = 0"
    by (simp_all add: tone_defs)
  have a1: "three_color_check 3 (100, []) = (100, [ThreeColorCompliant])"
    by (simp add: three_color_check_def)
  have a3: "tone_check 1 2 0 (100, [ThreeColorCompliant])
      = (85, [ThreeColorCompliant, WarmColdNeedsNeutral])"
    by (simp add: tone_check_def)
  have mn: "foldl min_with_inf None [?d, ?d, ?d] = Some ?d"
    by (simp add: min_with_inf_def)
  have mx: "foldl max 0 [?d, ?d, ?d] = ?d"
    by (simp add: max_def)
  have a4: "contrast_check (Some ?d) ?d (85, [ThreeColorCompliant, WarmColdNeedsNeutral])
      = (85, [ThreeColorCompliant, WarmColdNeedsNeutral])"
    by (simp add: contrast_check_def less_with_inf_def sqrt_less_iff_sq sqrt_gt_iff_sq)
  have a5: "complementary_check True 0 (85, [ThreeColorCompliant, WarmColdNeedsNeutral])
      = (70, [ThreeColorCompliant, WarmColdNeedsNeutral, ComplementaryNeedsNeutral])"
    by (simp add: complementary_check_def)
  have a6: "neutral_usage_check 0 3
        (70, [ThreeColorCompliant, WarmColdNeedsNeutral, ComplementaryNeedsNeutral])
      = (70, [ThreeColorCompliant, WarmColdNeedsNeutral, ComplementaryNeedsNeutral])"
    by (simp add: neutral_usage_check_def)
  have a7: "clamp_and_praise
        (70, [ThreeColorCompliant, WarmColdNeedsNeutral, ComplementaryNeedsNeutral])
      = (70, [ThreeColorCompliant, WarmColdNeedsNeutral, ComplementaryNeedsNeutral])"
    by (simp add: clamp_and_praise_def)
  have len: "length ?cs = 3" by simp
  have combo: "evaluate_color_combo ?cs =
     \<lparr>combo_score = 70,
      combo_suggestions =
        [ThreeColorCompliant, WarmColdNeedsNeutral, ComplementaryNeedsNeutral],
      analysis =
        \<lparr>color_count = Some 3,
         color_types = Some [n_deep_red, n_green, n_deep_blue],
         tones = Some [t_warm, t_cold, t_cold],
         contrast_scores = Some [?d, ?d, ?d]\<rparr>\<rparr>"
    unfolding evaluate_color_combo_def Let_def types tns counts pair_contrasts_primaries
      len mn mx a1 a3 a4 eqTrueI [OF has_complementary_primaries] a5 a6 a7
    by simp
  have lower: "360.6 < ?d"
    by (rule real_less_rsqrt) (simp add: power2_eq_square)
  have upper: "?d < 360.7"
    by (rule real_less_lsqrt) (simp_all add: power2_eq_square)
  from combo lower upper show ?thesis by blast
qed

text \<open>
  C8. The empty list scores 0 and carries the one suggestion that asks for a colour; a
  list of one colour, whatever the colour, scores 100 with the one suggestion of the
  single-colour case, and no section that could deduct is reached.
\<close>

theorem evaluate_color_combo_edge_cases:
  "evaluate_color_combo [] =
     \<lparr>combo_score = 0, combo_suggestions = [ProvideAtLeastOneColor],
      analysis = \<lparr>color_count = None, color_types = None, tones = None,
                   contrast_scores = None\<rparr>\<rparr>
   \<and> evaluate_color_combo [c] =
     \<lparr>combo_score = 100, combo_suggestions = [SingleColorElegant],
      analysis = \<lparr>color_count = Some 1, color_types = None, tones = None,
                   contrast_scores = None\<rparr>\<rparr>"
  by (simp add: evaluate_color_combo_def)

subsection \<open>Style coordination\<close>

lemma get_style_type_cases:
  "get_style_type x = ''formal'' \<or> get_style_type x = ''casual''
   \<or> get_style_type x = ''unknown''"
  by (simp add: get_style_type_def)

lemma style_types_subset: "set (style_types st) \<subseteq> {''formal'', ''casual''}"
  unfolding style_types_def Let_def
  using get_style_type_cases [of "dict_get st ''top'' ''''"]
    get_style_type_cases [of "dict_get st ''bottom'' ''''"]
    get_style_type_cases [of "dict_get st ''shoes'' ''''"]
  by auto

lemma style_types_card_le_2: "card (set (style_types st)) \<le> 2"
proof -
  have "card (set (style_types st)) \<le> card {''formal'', ''casual''}"
    by (rule card_mono) (simp_all add: style_types_subset)
  also have "\<dots> = 2" by simp
  finally show ?thesis .
qed






subsection \<open>Forbidden combinations and the complementary check\<close>

lemma inter_three: "(S \<inter> {a, b, c} \<noteq> {}) = (a \<in> S \<or> b \<in> S \<or> c \<in> S)"
  by auto

lemma list_ex_mem_three:
  "list_ex (\<lambda>x. x \<in> set [a, b, c]) xs = (a \<in> set xs \<or> b \<in> set xs \<or> c \<in> set xs)"
  by (auto simp add: list_ex_iff)

lemma list_ex_mem_two:
  "list_ex (\<lambda>x. x \<in> set [a, b]) xs = (a \<in> set xs \<or> b \<in> set xs)"
  by (auto simp add: list_ex_iff)

lemma has_complementary_iff:
  "has_complementary ns =
    (((n_red \<in> set ns \<or> n_deep_red \<in> set ns \<or> n_pink \<in> set ns)
       \<and> (n_green \<in> set ns \<or> n_deep_green \<in> set ns \<or> n_pale_green \<in> set ns))
   \<or> ((n_blue \<in> set ns \<or> n_deep_blue \<in> set ns \<or> n_pale_blue \<in> set ns)
       \<and> (n_orange \<in> set ns \<or> n_yellow \<in> set ns \<or> n_pale_yellow \<in> set ns))
   \<or> ((n_yellow \<in> set ns \<or> n_pale_yellow \<in> set ns)
       \<and> (n_purple \<in> set ns \<or> n_deep_purple \<in> set ns \<or> n_pale_purple \<in> set ns)))"
  unfolding has_complementary_def complementary_pairs_def
  by (simp only: list_ex_Nil_iff list_ex_Cons_iff prod.case list_ex_mem_three
      list_ex_mem_two) blast

lemma forbidden_violations_iff:
  "(forbidden_violations cs \<noteq> []) =
    (let S = set (map color_name_of cs) in
     ((n_red \<in> S \<or> n_deep_red \<in> S \<or> n_pink \<in> S)
       \<and> (n_green \<in> S \<or> n_deep_green \<in> S \<or> n_pale_green \<in> S))
   \<or> ((n_purple \<in> S \<or> n_deep_purple \<in> S \<or> n_pale_purple \<in> S)
       \<and> (n_yellow \<in> S \<or> n_pale_yellow \<in> S \<or> n_orange \<in> S))
   \<or> ((n_blue \<in> S \<or> n_deep_blue \<in> S \<or> n_pale_blue \<in> S)
       \<and> (n_orange \<in> S \<or> n_yellow \<in> S \<or> n_pale_yellow \<in> S)))"
  unfolding forbidden_violations_def forbidden_combos_def Let_def
  by (simp only: filter.simps prod.case inter_three split: if_splits) auto

lemma classify_orange:
  "classify_color_type (255, 165, 0) = \<lparr>name = n_orange, tone = t_warm\<rparr>"
  by (simp add: classify_color_type_def brightness_rgb_def)

lemma classify_purple:
  "classify_color_type (128, 0, 128) = \<lparr>name = n_deep_purple, tone = t_cold\<rparr>"
  by (simp add: classify_color_type_def brightness_rgb_def)

text \<open>
  C3, as amended. The rule's table pairs the purple family with yellow, pale-yellow and
  orange, where the table of \<^verbatim>\<open>evaluate_color_combo\<close> pairs it with yellow and
  pale-yellow only; the other two pairs agree. So, for every list of colours, the rule
  finds a forbidden combination exactly when the complementary check of
  \<^verbatim>\<open>evaluate_color_combo\<close> fires on the same names, or orange occurs together with a
  name of the purple family. On RGB tuples these names are the classified names that
  \<^verbatim>\<open>evaluate_color_combo\<close> computes.
\<close>

theorem forbidden_combo_vs_complementary_check:
  "(\<not> passed (ForbiddenColorComboRule_evaluate_colors w cs data)) =
     (has_complementary (map color_name_of cs)
      \<or> (n_orange \<in> set (map color_name_of cs)
          \<and> set (map color_name_of cs) \<inter> {n_purple, n_deep_purple, n_pale_purple} \<noteq> {}))
   \<and> map color_name_of (map Tuple ts) = map (\<lambda>c. name (classify_color_type c)) ts"
proof -
  have "(\<not> passed (ForbiddenColorComboRule_evaluate_colors w cs data))
      = (forbidden_violations cs \<noteq> [])"
    by (simp add: ForbiddenColorComboRule_evaluate_colors_def Let_def)
  also have "\<dots> = (has_complementary (map color_name_of cs)
      \<or> (n_orange \<in> set (map color_name_of cs)
          \<and> set (map color_name_of cs) \<inter> {n_purple, n_deep_purple, n_pale_purple} \<noteq> {}))"
    unfolding forbidden_violations_iff has_complementary_iff inter_three Let_def by blast
  finally have rule: "(\<not> passed (ForbiddenColorComboRule_evaluate_colors w cs data)) =
     (has_complementary (map color_name_of cs)
      \<or> (n_orange \<in> set (map color_name_of cs)
          \<and> set (map color_name_of cs) \<inter> {n_purple, n_deep_purple, n_pale_purple} \<noteq> {}))" .
  have names: "map color_name_of (map Tuple ts) = map (\<lambda>c. name (classify_color_type c)) ts"
    by (simp add: color_name_of_def)
  from rule names show ?thesis by blast
qed

text \<open>The claim as stated fails on orange with purple: the rule reports a forbidden
  combination (score 50, error), and the complementary check on the same classified
  names finds no pair.\<close>

theorem forbidden_combo_orange_purple_counterexample:
  "evaluate (ForbiddenColorComboRule_init 1.8) orange_purple =
     \<lparr>passed = False, score = 50,
      message = ForbiddenComboFound
        [({n_purple, n_deep_purple, n_pale_purple}, {n_yellow, n_pale_yellow, n_orange})],
      suggestion = Some AvoidComplementaryColors, severity = ERROR, weight = 1.8\<rparr>
   \<and> \<not> has_complementary
        (map (\<lambda>c. name (classify_color_type c)) [(255, 165, 0), (128, 0, 128)])"
proof -
  have v: "forbidden_violations [Tuple (255, 165, 0), Tuple (128, 0, 128)] =
      [({n_purple, n_deep_purple, n_pale_purple}, {n_yellow, n_pale_yellow, n_orange})]"
    unfolding forbidden_violations_def forbidden_combos_def Let_def
    by (simp add: color_name_of_def classify_orange classify_purple) (simp add: color_name_defs)
  have h: "\<not> has_complementary [n_orange, n_deep_purple]"
    by (simp add: has_complementary_iff color_name_defs)
  have e: "evaluate (ForbiddenColorComboRule_init 1.8) orange_purple =
     \<lparr>passed = False, score = 50,
      message = ForbiddenComboFound
        [({n_purple, n_deep_purple, n_pale_purple}, {n_yellow, n_pale_yellow, n_orange})],
      suggestion = Some AvoidComplementaryColors, severity = ERROR, weight = 1.8\<rparr>"
    by (simp add: evaluate_def ForbiddenColorComboRule_init_def ColorRule_evaluate_def
        orange_purple_def ForbiddenColorComboRule_evaluate_colors_def Let_def v)
  from e h show ?thesis by (simp add: classify_orange classify_purple)
qed

subsection \<open>Colour rules without colours\<close>

lemma ColorRule_evaluate_no_colors:
  "colors data = [] \<Longrightarrow> ColorRule_evaluate ec data = skipped NoColorInfo"
  by (simp add: ColorRule_evaluate_def)

lemma evaluate_ColorRule_no_colors:
  "is_ColorRule (rule_class rule) \<Longrightarrow> colors data = [] \<Longrightarrow>
   evaluate rule data = skipped NoColorInfo"
  by (cases "rule_class rule") (simp_all add: evaluate_def ColorRule_evaluate_def)

lemma light_top_same_colors:
  "top_colors data = bottom_colors data \<Longrightarrow>
   LightTopDarkBottomRule_evaluate_colors w cs data =
     \<lparr>passed = True, score = 100,
      message = (if top_colors data = [] then NoTopBottomColors else LightTopDarkBottomOk),
      suggestion = None, severity = INFO, weight = w\<rparr>"
  by (simp add: LightTopDarkBottomRule_evaluate_colors_def Let_def)

text \<open>
  C10. When \<^verbatim>\<open>evaluate_outfit\<close> gets no colours (\<^verbatim>\<open>None\<close> or the empty list), the
  method of \<^verbatim>\<open>ColorRule\<close> returns the skipped result (passed, score 100, info) whatever
  the subclass method \<open>ec\<close> is and whatever top and bottom colours were passed; this holds
  in particular for the three colour rules of the module, so the brightness comparison
  is reached with a non-empty colour list only. When neither top nor bottom colours are
  passed, both default to the colours and the light-top rule passes with score 100.
\<close>

theorem color_rules_without_colors:
  "((cs = None \<or> cs = Some []) \<longrightarrow>
      ColorRule_evaluate ec (build_outfit_data cs st ctx tops bottoms) = skipped NoColorInfo
      \<and> (is_ColorRule (rule_class rule) \<longrightarrow>
           evaluate rule (build_outfit_data cs st ctx tops bottoms) = skipped NoColorInfo))
   \<and> ((tops = None \<or> tops = Some []) \<and> (bottoms = None \<or> bottoms = Some [])
        \<and> rule_class rule = LightTopDarkBottomRule \<longrightarrow>
      passed (evaluate rule (build_outfit_data cs st ctx tops bottoms))
      \<and> score (evaluate rule (build_outfit_data cs st ctx tops bottoms)) = 100
      \<and> severity (evaluate rule (build_outfit_data cs st ctx tops bottoms)) = INFO)"
proof (intro conjI impI)
  assume c: "cs = None \<or> cs = Some []"
  then have e: "colors (build_outfit_data cs st ctx tops bottoms) = []"
    by (auto simp add: build_outfit_data_def list_or_def)
  then show "ColorRule_evaluate ec (build_outfit_data cs st ctx tops bottoms)
      = skipped NoColorInfo"
    by (rule ColorRule_evaluate_no_colors)
  assume "is_ColorRule (rule_class rule)"
  then show "evaluate rule (build_outfit_data cs st ctx tops bottoms) = skipped NoColorInfo"
    using e by (rule evaluate_ColorRule_no_colors)
next
  let ?data = "build_outfit_data cs st ctx tops bottoms"
  assume a: "(tops = None \<or> tops = Some []) \<and> (bottoms = None \<or> bottoms = Some [])
        \<and> rule_class rule = LightTopDarkBottomRule"
  then have same: "top_colors ?data = bottom_colors ?data"
    by (auto simp add: build_outfit_data_def list_or_def)
  have ev: "evaluate rule ?data =
     ColorRule_evaluate (LightTopDarkBottomRule_evaluate_colors (rule_weight rule)) ?data"
    using a by (simp add: evaluate_def)
  show "passed (evaluate rule ?data)"
    unfolding ev ColorRule_evaluate_def
    by (simp add: skipped_def light_top_same_colors [OF same])
  show "score (evaluate rule ?data) = 100"
    unfolding ev ColorRule_evaluate_def
    by (simp add: skipped_def light_top_same_colors [OF same])
  show "severity (evaluate rule ?data) = INFO"
    unfolding ev ColorRule_evaluate_def
    by (simp add: skipped_def light_top_same_colors [OF same])
qed

text \<open>The witness: without colours, a black top over a white bottom is not compared; and
  with colours but no separate top and bottom, the rule passes.\<close>

theorem color_rules_without_colors_witness:
  "evaluate (LightTopDarkBottomRule_init 1.2)
      (build_outfit_data None None None (Some [Named n_black]) (Some [Named n_white]))
     = skipped NoColorInfo
   \<and> passed (evaluate (LightTopDarkBottomRule_init 1.2)
      (build_outfit_data (Some [Tuple (255, 0, 0), Named n_black]) None None None None))
   \<and> score (evaluate (LightTopDarkBottomRule_init 1.2)
      (build_outfit_data (Some [Tuple (255, 0, 0), Named n_black]) None None None None)) = 100"
proof -
  let ?rule = "LightTopDarkBottomRule_init 1.2"
  have k: "rule_class ?rule = LightTopDarkBottomRule"
    by (simp add: LightTopDarkBottomRule_init_def)
  have 1: "evaluate ?rule
      (build_outfit_data None None None (Some [Named n_black]) (Some [Named n_white]))
     = skipped NoColorInfo"
    using color_rules_without_colors
      [where cs = None and st = None and ctx = None and tops = "Some [Named n_black]"
         and bottoms = "Some [Named n_white]" and rule = ?rule] k
    by simp
  have 2: "passed (evaluate ?rule
      (build_outfit_data (Some [Tuple (255, 0, 0), Named n_black]) None None None None))
    \<and> score (evaluate ?rule
      (build_outfit_data (Some [Tuple (255, 0, 0), Named n_black]) None None None None)) = 100"
    using color_rules_without_colors
      [where cs = "Some [Tuple (255, 0, 0), Named n_black]" and st = None and ctx = None
         and tops = None and bottoms = None and rule = ?rule] k
    by simp
  from 1 2 show ?thesis by simp
qed

subsection \<open>The rule library\<close>

lemma RuleLibrary_init_rules:
  "rules (fst (RuleLibrary_init s)) =
     [next_ref s, Suc (next_ref s), Suc (Suc (next_ref s)), Suc (Suc (Suc (next_ref s))),
      Suc (Suc (Suc (Suc (next_ref s))))]"
  by (simp add: RuleLibrary_init_def new_object_def Let_def)

lemma RuleLibrary_init_objects:
  "objects (snd (RuleLibrary_init s)) (next_ref s) = ThreeColorRule_init 3 1.5"
  "objects (snd (RuleLibrary_init s)) (Suc (next_ref s)) = LightTopDarkBottomRule_init 1.2"
  "objects (snd (RuleLibrary_init s)) (Suc (Suc (next_ref s)))
     = ForbiddenColorComboRule_init 1.8"
  "objects (snd (RuleLibrary_init s)) (Suc (Suc (Suc (next_ref s))))
     = StyleCoordinationRule_init 1.5"
  "objects (snd (RuleLibrary_init s)) (Suc (Suc (Suc (Suc (next_ref s)))))
     = ContextAppropriateRule_init 1.3"
  by (simp_all add: RuleLibrary_init_def new_object_def Let_def)

lemmas rule_init_defs =
  ThreeColorRule_init_def LightTopDarkBottomRule_init_def ForbiddenColorComboRule_init_def
  StyleCoordinationRule_init_def ContextAppropriateRule_init_def

lemma RuleLibrary_init_names:
  "map (\<lambda>r. rule_name (objects (snd (RuleLibrary_init s)) r)) (rules (fst (RuleLibrary_init s)))
    = [rn_three_color, rn_light_top, rn_forbidden, rn_style, rn_context]"
  by (simp add: RuleLibrary_init_rules RuleLibrary_init_objects rule_init_defs)

lemma default_names_distinct:
  "distinct [rn_three_color, rn_light_top, rn_forbidden, rn_style, rn_context]"
  by (simp add: rule_name_defs)

lemma names_unique_init: "names_unique (snd (RuleLibrary_init s)) (fst (RuleLibrary_init s))"
  unfolding names_unique_def RuleLibrary_init_names by (rule default_names_distinct)

lemma rule_name_set_enabled [simp]:
  "rule_name (objects (set_enabled a b s) r) = rule_name (objects s r)"
  by (simp add: set_enabled_def)

lemma get_rule_set_enabled [simp]: "get_rule (set_enabled a b s) lib nm = get_rule s lib nm"
  by (simp add: get_rule_def)

lemma names_unique_set_enabled [simp]:
  "names_unique (set_enabled a b s) lib = names_unique s lib"
  by (simp add: names_unique_def)

lemma names_unique_remove: "names_unique s lib \<Longrightarrow> names_unique s (remove_rule s lib nm)"
  by (simp add: names_unique_def remove_rule_def distinct_map_filter)

lemma names_unique_enable: "names_unique (enable_rule s lib nm) lib = names_unique s lib"
  by (simp add: enable_rule_def split: option.splits)

lemma names_unique_disable: "names_unique (disable_rule s lib nm) lib = names_unique s lib"
  by (simp add: disable_rule_def split: option.splits)

lemma names_unique_add:
  "names_unique s (add_rule lib r) =
     (names_unique s lib
      \<and> rule_name (objects s r) \<notin> (\<lambda>a. rule_name (objects s a)) ` set (rules lib))"
  by (auto simp add: names_unique_def add_rule_def)

lemma default_library_rules: "rules default_library = [0, 1, 2, 3, 4]"
  by (simp add: default_library_def RuleLibrary_init_rules empty_store_def eval_nat_numeral)

lemma default_store_objects:
  "objects default_store 0 = ThreeColorRule_init 3 1.5"
  "objects default_store (Suc 0) = LightTopDarkBottomRule_init 1.2"
  "objects default_store 2 = ForbiddenColorComboRule_init 1.8"
  "objects default_store 3 = StyleCoordinationRule_init 1.5"
  "objects default_store 4 = ContextAppropriateRule_init 1.3"
  "next_ref default_store = 5"
  by (simp_all add: default_store_def empty_store_def RuleLibrary_init_def new_object_def
      Let_def)

lemma default_get_rule: "get_rule default_store default_library rn_three_color = Some 0"
  by (simp add: get_rule_def default_library_rules default_store_objects
      ThreeColorRule_init_def)

lemma default_enabled: "get_enabled_rules default_store default_library = [0, 1, 2, 3, 4]"
  by (simp add: get_enabled_rules_def default_library_rules default_store_objects
      rule_init_defs)

text \<open>
  C7, as amended. A new library has five rules with pairwise different names;
  \<^verbatim>\<open>remove_rule\<close>, \<^verbatim>\<open>enable_rule\<close> and \<^verbatim>\<open>disable_rule\<close> keep the names of a library
  unique; \<^verbatim>\<open>add_rule\<close>, which appends without looking, keeps them unique exactly when
  the name of the added rule is not yet in the library.
\<close>

theorem names_unique_preserved:
  "length (rules (fst (RuleLibrary_init s0))) = 5
   \<and> names_unique (snd (RuleLibrary_init s0)) (fst (RuleLibrary_init s0))
   \<and> (names_unique s lib \<longrightarrow>
        names_unique s (remove_rule s lib nm)
        \<and> names_unique (enable_rule s lib nm) lib
        \<and> names_unique (disable_rule s lib nm) lib)
   \<and> names_unique s (add_rule lib r) =
       (names_unique s lib
        \<and> rule_name (objects s r) \<notin> (\<lambda>a. rule_name (objects s a)) ` set (rules lib))"
  by (simp add: RuleLibrary_init_rules names_unique_init names_unique_remove
      names_unique_enable names_unique_disable names_unique_add)

text \<open>The witness: the default library, from which the three-colour rule is removed,
  then disabled and enabled by name.\<close>

theorem names_unique_preserved_witness:
  "names_unique default_store default_library
   \<and> names_unique default_store (remove_rule default_store default_library rn_three_color)
   \<and> names_unique (enable_rule default_store default_library rn_three_color) default_library
   \<and> names_unique (disable_rule default_store default_library rn_three_color) default_library"
proof -
  have u: "names_unique default_store default_library"
    unfolding default_store_def default_library_def by (rule names_unique_init)
  from names_unique_preserved
    [where s = default_store and lib = default_library and nm = rn_three_color] u
  show ?thesis by simp
qed

text \<open>The claim as stated fails for \<^verbatim>\<open>add_rule\<close>: adding a second
  \<^verbatim>\<open>ThreeColorRule\<close> to the default library leaves two rules of the same name.\<close>

theorem add_rule_duplicate_name_counterexample:
  "names_unique default_store default_library
   \<and> \<not> names_unique (snd (new_object (ThreeColorRule_init 3 1.5) default_store))
        (add_rule default_library
          (fst (new_object (ThreeColorRule_init 3 1.5) default_store)))"
proof -
  have 1: "names_unique default_store default_library"
    unfolding default_store_def default_library_def by (rule names_unique_init)
  have 2: "\<not> names_unique (snd (new_object (ThreeColorRule_init 3 1.5) default_store))
        (add_rule default_library
          (fst (new_object (ThreeColorRule_init 3 1.5) default_store)))"
    by (simp add: names_unique_def add_rule_def new_object_def default_library_rules
        default_store_objects ThreeColorRule_init_def)
  from 1 2 show ?thesis by simp
qed

subsection \<open>Disabling and enabling a rule\<close>

lemma filter_length_split:
  "length (filter P xs) =
     length (filter (\<lambda>r. r \<noteq> a \<and> P r) xs) + (if P a then count_list xs a else 0)"
  by (induction xs) auto

lemma get_enabled_set_enabled:
  "length (get_enabled_rules (set_enabled a b s) lib) =
     length (filter (\<lambda>r. r \<noteq> a \<and> enabled (objects s r)) (rules lib))
       + (if b then count_list (rules lib) a else 0)"
proof -
  have "(\<lambda>r. r \<noteq> a \<and> enabled (objects (set_enabled a b s) r))
      = (\<lambda>r. r \<noteq> a \<and> enabled (objects s r))"
    by (auto simp add: set_enabled_def)
  moreover have "enabled (objects (set_enabled a b s) a) = b"
    by (simp add: set_enabled_def)
  ultimately show ?thesis
    unfolding get_enabled_rules_def
    using filter_length_split [of "\<lambda>r. enabled (objects (set_enabled a b s) r)" "rules lib" a]
    by simp
qed

lemma get_enabled_split:
  "length (get_enabled_rules s lib) =
     length (filter (\<lambda>r. r \<noteq> a \<and> enabled (objects s r)) (rules lib))
       + (if enabled (objects s a) then count_list (rules lib) a else 0)"
  unfolding get_enabled_rules_def
  using filter_length_split [of "\<lambda>r. enabled (objects s r)" "rules lib" a] by simp

lemma set_enabled_restore:
  "enabled (objects s a) = b \<Longrightarrow> set_enabled a b (set_enabled a c s) = s"
  by (auto simp add: set_enabled_def fun_eq_iff)

lemma set_enabled_same: "enabled (objects s a) = b \<Longrightarrow> set_enabled a b s = s"
  by (auto simp add: set_enabled_def fun_eq_iff)

lemma get_rule_registered:
  assumes "get_rule s lib nm = Some a"
  shows "1 \<le> count_list (rules lib) a"
proof -
  from assms have "a \<in> set (rules lib)" by (auto simp add: get_rule_def find_Some_iff)
  then have "count_list (rules lib) a \<noteq> 0" by (simp add: count_list_0_iff)
  then show ?thesis by simp
qed

lemma doubled_library_rules: "rules doubled_library = [0, 1, 2, 3, 4, 0]"
  by (simp add: doubled_library_def add_rule_def default_library_rules)

lemma doubled_get_rule: "get_rule default_store doubled_library rn_three_color = Some 0"
  by (simp add: get_rule_def doubled_library_rules default_store_objects
      ThreeColorRule_init_def)

lemma doubled_enabled_before:
  "get_enabled_rules default_store doubled_library = [0, 1, 2, 3, 4, 0]"
  by (simp add: get_enabled_rules_def doubled_library_rules default_store_objects
      rule_init_defs)

lemma doubled_enabled_after:
  "get_enabled_rules (disable_rule default_store doubled_library rn_three_color)
     doubled_library = [1, 2, 3, 4]"
  by (simp add: disable_rule_def doubled_get_rule get_enabled_rules_def
      doubled_library_rules set_enabled_def default_store_objects rule_init_defs)

lemma default_no_such_rule:
  "get_rule default_store default_library ''no such rule'' = None"
  by (simp add: get_rule_def default_library_rules default_store_objects rule_init_defs
      rule_name_defs)

text \<open>
  C9, as amended. \<^verbatim>\<open>disable_rule\<close> and \<^verbatim>\<open>enable_rule\<close> act on the first rule of that
  name. When the library has no rule of the name, either call leaves every rule object
  as it is; so does the call that sets the flag which the found rule \<open>a\<close> has already.
  When \<open>a\<close> is enabled, disabling the name shortens the list of enabled rules by the
  number of times \<open>a\<close> is registered in the library, which is at least one and is one
  for a rule registered once; when \<open>a\<close> is disabled, enabling the name lengthens the
  list by that number. In both cases the opposite call afterwards restores the rule
  objects, and with them the enabled rules, exactly.
\<close>

theorem disable_enable_roundtrip:
  "(get_rule s lib nm = None \<longrightarrow> disable_rule s lib nm = s \<and> enable_rule s lib nm = s)
   \<and> (get_rule s lib nm = Some a \<and> enabled (objects s a) \<longrightarrow>
        enable_rule s lib nm = s
      \<and> 1 \<le> count_list (rules lib) a
      \<and> length (get_enabled_rules (disable_rule s lib nm) lib) + count_list (rules lib) a
          = length (get_enabled_rules s lib)
      \<and> enable_rule (disable_rule s lib nm) lib nm = s
      \<and> get_enabled_rules (enable_rule (disable_rule s lib nm) lib nm) lib
          = get_enabled_rules s lib)
   \<and> (get_rule s lib nm = Some a \<and> \<not> enabled (objects s a) \<longrightarrow>
        disable_rule s lib nm = s
      \<and> 1 \<le> count_list (rules lib) a
      \<and> length (get_enabled_rules (enable_rule s lib nm) lib)
          = length (get_enabled_rules s lib) + count_list (rules lib) a
      \<and> disable_rule (enable_rule s lib nm) lib nm = s
      \<and> get_enabled_rules (disable_rule (enable_rule s lib nm) lib nm) lib
          = get_enabled_rules s lib)"
proof (intro conjI impI)
  assume "get_rule s lib nm = None"
  then show "disable_rule s lib nm = s" "enable_rule s lib nm = s"
    by (simp_all add: disable_rule_def enable_rule_def)
next
  assume h: "get_rule s lib nm = Some a \<and> enabled (objects s a)"
  then have d: "disable_rule s lib nm = set_enabled a False s"
    by (simp add: disable_rule_def)
  show "enable_rule s lib nm = s"
    using h by (simp add: enable_rule_def set_enabled_same)
  show "1 \<le> count_list (rules lib) a"
    using h get_rule_registered [of s lib nm a] by simp
  show "length (get_enabled_rules (disable_rule s lib nm) lib) + count_list (rules lib) a
      = length (get_enabled_rules s lib)"
    unfolding d get_enabled_set_enabled using h get_enabled_split [of s lib a] by simp
  show e: "enable_rule (disable_rule s lib nm) lib nm = s"
    unfolding d using h by (simp add: enable_rule_def set_enabled_restore)
  show "get_enabled_rules (enable_rule (disable_rule s lib nm) lib nm) lib
      = get_enabled_rules s lib"
    by (simp only: e)
next
  assume h: "get_rule s lib nm = Some a \<and> \<not> enabled (objects s a)"
  then have d: "enable_rule s lib nm = set_enabled a True s"
    by (simp add: enable_rule_def)
  show "disable_rule s lib nm = s"
    using h by (simp add: disable_rule_def set_enabled_same)
  show "1 \<le> count_list (rules lib) a"
    using h get_rule_registered [of s lib nm a] by simp
  show "length (get_enabled_rules (enable_rule s lib nm) lib)
      = length (get_enabled_rules s lib) + count_list (rules lib) a"
    unfolding d get_enabled_set_enabled using h get_enabled_split [of s lib a] by simp
  show e: "disable_rule (enable_rule s lib nm) lib nm = s"
    unfolding d using h by (simp add: disable_rule_def set_enabled_restore)
  show "get_enabled_rules (disable_rule (enable_rule s lib nm) lib nm) lib
      = get_enabled_rules s lib"
    by (simp only: e)
qed

text \<open>The witness: the three-colour rule of the default library, registered once, is
  disabled and enabled again as in \<^verbatim>\<open>test_rule_library\<close>; enabling it while it is enabled
  and disabling a name that the library does not have change nothing; and, started from
  the store in which the rule is disabled, enabling it adds one enabled rule.\<close>

theorem disable_enable_roundtrip_witness:
  "get_rule default_store default_library rn_three_color = Some 0
   \<and> enabled (objects default_store 0)
   \<and> count_list (rules default_library) 0 = 1
   \<and> length (get_enabled_rules (disable_rule default_store default_library rn_three_color)
        default_library) + 1 = 5
   \<and> enable_rule (disable_rule default_store default_library rn_three_color)
        default_library rn_three_color = default_store
   \<and> enable_rule default_store default_library rn_three_color = default_store
   \<and> get_rule default_store default_library ''no such rule'' = None
   \<and> disable_rule default_store default_library ''no such rule'' = default_store
   \<and> length (get_enabled_rules
        (enable_rule (set_enabled 0 False default_store) default_library rn_three_color)
        default_library)
      = length (get_enabled_rules (set_enabled 0 False default_store) default_library) + 1"
proof -
  have e: "enabled (objects default_store 0)"
    by (simp add: default_store_objects ThreeColorRule_init_def)
  have c: "count_list (rules default_library) 0 = 1"
    by (simp add: default_library_rules)
  have 1: "length (get_enabled_rules (disable_rule default_store default_library rn_three_color)
        default_library) + 1 = 5
     \<and> enable_rule (disable_rule default_store default_library rn_three_color)
        default_library rn_three_color = default_store
     \<and> enable_rule default_store default_library rn_three_color = default_store"
    using disable_enable_roundtrip [of default_store default_library rn_three_color 0]
      default_get_rule e c default_enabled
    by simp
  have 3: "disable_rule default_store default_library ''no such rule'' = default_store"
    using disable_enable_roundtrip [of default_store default_library "''no such rule''" 0]
      default_no_such_rule
    by simp
  have g: "get_rule (set_enabled 0 False default_store) default_library rn_three_color = Some 0"
    by (simp add: default_get_rule)
  have ne: "\<not> enabled (objects (set_enabled 0 False default_store) 0)"
    by (simp add: set_enabled_def)
  have 2: "length (get_enabled_rules
        (enable_rule (set_enabled 0 False default_store) default_library rn_three_color)
        default_library)
      = length (get_enabled_rules (set_enabled 0 False default_store) default_library) + 1"
    using disable_enable_roundtrip
      [of "set_enabled 0 False default_store" default_library rn_three_color 0] g ne c
    by simp
  from default_get_rule e c 1 default_no_such_rule 3 2 show ?thesis by simp
qed

text \<open>The claim as stated fails in three ways, each with its own input. Enabling a rule
  that is enabled already leaves the number of enabled rules as it was; so does
  disabling a name that the library does not have; and when the same rule object has
  been added a second time, disabling its name takes two entries, not one, out of the
  enabled rules (six before, four after).\<close>

theorem enable_enabled_rule_counterexample:
  "length (get_enabled_rules (enable_rule default_store default_library rn_three_color)
      default_library)
     = length (get_enabled_rules default_store default_library)
   \<and> length (get_enabled_rules (disable_rule default_store default_library ''no such rule'')
      default_library)
     = length (get_enabled_rules default_store default_library)
   \<and> length (get_enabled_rules default_store doubled_library) = 6
   \<and> length (get_enabled_rules (disable_rule default_store doubled_library rn_three_color)
        doubled_library) = 4"
proof -
  have "enable_rule default_store default_library rn_three_color = default_store"
    using set_enabled_restore [of default_store 0 True True]
    by (simp add: enable_rule_def default_get_rule default_store_objects
        ThreeColorRule_init_def set_enabled_def)
  then have 1: "length (get_enabled_rules
        (enable_rule default_store default_library rn_three_color) default_library)
     = length (get_enabled_rules default_store default_library)"
    by simp
  have 2: "length (get_enabled_rules
        (disable_rule default_store default_library ''no such rule'') default_library)
     = length (get_enabled_rules default_store default_library)"
    using default_no_such_rule by (simp add: disable_rule_def)
  have 3: "length (get_enabled_rules default_store doubled_library) = 6"
    by (simp add: doubled_enabled_before)
  have 4: "length (get_enabled_rules
        (disable_rule default_store doubled_library rn_three_color) doubled_library) = 4"
    by (simp only: doubled_enabled_after) simp
  from 1 2 3 4 show ?thesis by blast
qed

subsection \<open>The aggregate score\<close>

lemma foldl_evaluate_rule_step:
  "foldl (evaluate_rule_step s data) (res, tws, tw) rs =
     (res @ map (outcome_of s data) rs,
      tws + sum_list
        (map (\<lambda>r. score (evaluate (objects s r) data) * rule_weight (objects s r)) rs),
      tw + sum_list (map (\<lambda>r. rule_weight (objects s r)) rs))"
proof (induction rs arbitrary: res tws tw)
  case Nil
  show ?case by simp
next
  case (Cons r rs)
  show ?case
    by (simp add: Cons.IH evaluate_rule_step_def [of s data "(res, tws, tw)" r] Let_def
        outcome_of_def algebra_simps)
qed

lemma report_score_eq:
  "report_score (RuleEvaluator_evaluate_outfit s lib cs st ctx tops bottoms) =
     (let data = build_outfit_data cs st ctx tops bottoms;
          rs = get_enabled_rules s lib;
          tws = sum_list
            (map (\<lambda>r. score (evaluate (objects s r) data) * rule_weight (objects s r)) rs);
          tw = sum_list (map (\<lambda>r. rule_weight (objects s r)) rs)
      in round2 (if tw > 0 then tws / tw else 0))"
  by (simp add: RuleEvaluator_evaluate_outfit_def foldl_evaluate_rule_step Let_def)

lemma round_half_even_lower:
  assumes "real_of_int n \<le> x"
  shows "n \<le> round_half_even x"
proof -
  have "n \<le> \<lfloor>x\<rfloor>" using assms by (simp add: le_floor_iff)
  then show ?thesis by (simp add: round_half_even_def Let_def)
qed

lemma round_half_even_upper:
  assumes "x \<le> real_of_int n"
  shows "round_half_even x \<le> n"
proof -
  have f: "\<lfloor>x\<rfloor> \<le> n" using assms by (simp add: floor_le_iff)
  show ?thesis
  proof (cases "x - real_of_int \<lfloor>x\<rfloor> < 1 / 2")
    case True
    then show ?thesis using f by (simp add: round_half_even_def Let_def)
  next
    case False
    then have "real_of_int \<lfloor>x\<rfloor> < x" by simp
    with assms have "real_of_int \<lfloor>x\<rfloor> < real_of_int n" by simp
    then have "\<lfloor>x\<rfloor> + 1 \<le> n" by simp
    with f show ?thesis by (simp add: round_half_even_def Let_def)
  qed
qed

lemma round2_range: "0 \<le> x \<Longrightarrow> x \<le> 100 \<Longrightarrow> 0 \<le> round2 x \<and> round2 x \<le> 100"
  using round_half_even_lower [of 0 "x * 100"] round_half_even_upper [of "x * 100" 10000]
  by (simp add: round2_def field_simps)


lemma weighted_sum_range:
  fixes w sc :: "'a \<Rightarrow> real"
  shows "(\<And>r. r \<in> set rs \<Longrightarrow> 0 \<le> w r \<and> 0 \<le> sc r \<and> sc r \<le> 100) \<Longrightarrow>
   0 \<le> sum_list (map (\<lambda>r. sc r * w r) rs)
   \<and> sum_list (map (\<lambda>r. sc r * w r) rs) \<le> 100 * sum_list (map w rs)"
proof (induction rs)
  case Nil
  show ?case by simp
next
  case (Cons r rs)
  have r: "0 \<le> w r \<and> 0 \<le> sc r \<and> sc r \<le> (100::real)" using Cons.prems by simp
  then have 1: "0 \<le> sc r * w r" by simp
  from r have 2: "sc r * w r \<le> 100 * w r" by (simp add: mult_right_mono)
  from Cons.IH Cons.prems 1 2 show ?case by (simp add: algebra_simps)
qed

lemma average_range:
  assumes "0 \<le> a" and "a \<le> 100 * w"
  shows "0 \<le> (if w > 0 then a / w else (0::real)) \<and> (if w > 0 then a / w else 0) \<le> 100"
  using assms by (simp add: field_simps)


paragraph \<open>The range of each rule's score\<close>

lemma skipped_score: "score (skipped m) = 100"
  by (simp add: skipped_def)

lemma ThreeColorRule_score_range:
  "0 \<le> score (ThreeColorRule_evaluate_colors m w cs data)
   \<and> score (ThreeColorRule_evaluate_colors m w cs data) \<le> 100"
  by (simp add: ThreeColorRule_evaluate_colors_def Let_def)

lemma LightTopDarkBottomRule_score_range:
  "0 \<le> score (LightTopDarkBottomRule_evaluate_colors w cs data)
   \<and> score (LightTopDarkBottomRule_evaluate_colors w cs data) \<le> 100"
  by (simp add: LightTopDarkBottomRule_evaluate_colors_def Let_def)

lemma ForbiddenColorComboRule_score_range:
  "0 \<le> score (ForbiddenColorComboRule_evaluate_colors w cs data)
   \<and> score (ForbiddenColorComboRule_evaluate_colors w cs data) \<le> 100"
  by (simp add: ForbiddenColorComboRule_evaluate_colors_def Let_def)

lemma StyleCoordinationRule_score_range:
  "0 \<le> score (StyleCoordinationRule_evaluate_styles w st data)
   \<and> score (StyleCoordinationRule_evaluate_styles w st data) \<le> 100"
  by (simp add: StyleCoordinationRule_evaluate_styles_def Let_def)

lemma ContextAppropriateRule_score_range:
  "0 \<le> score (ContextAppropriateRule_evaluate_context w ctx data)
   \<and> score (ContextAppropriateRule_evaluate_context w ctx data) \<le> 100"
  by (simp add: ContextAppropriateRule_evaluate_context_def Let_def)

lemma evaluate_score_range:
  assumes "\<And>f. rule_class rule \<noteq> OtherRule f"
  shows "0 \<le> score (evaluate rule data) \<and> score (evaluate rule data) \<le> 100"
proof (cases "rule_class rule")
  case (ThreeColorRule m)
  then show ?thesis
    using ThreeColorRule_score_range [of m "rule_weight rule" "colors data" data]
    by (simp add: evaluate_def ColorRule_evaluate_def skipped_score)
next
  case LightTopDarkBottomRule
  then show ?thesis
    using LightTopDarkBottomRule_score_range [of "rule_weight rule" "colors data" data]
    by (simp add: evaluate_def ColorRule_evaluate_def skipped_score)
next
  case ForbiddenColorComboRule
  then show ?thesis
    using ForbiddenColorComboRule_score_range [of "rule_weight rule" "colors data" data]
    by (simp add: evaluate_def ColorRule_evaluate_def skipped_score)
next
  case StyleCoordinationRule
  then show ?thesis
    using StyleCoordinationRule_score_range [of "rule_weight rule" "styles data" data]
    by (simp add: evaluate_def StyleRule_evaluate_def skipped_score)
next
  case ContextAppropriateRule
  then show ?thesis
    using ContextAppropriateRule_score_range [of "rule_weight rule" "context_dict data" data]
    by (simp add: evaluate_def ContextRule_evaluate_def skipped_score)
next
  case (OtherRule f)
  with assms [of f] show ?thesis by simp
qed

lemma RuleLibrary_init_enabled_rules:
  "get_enabled_rules (snd (RuleLibrary_init s)) (fst (RuleLibrary_init s)) =
     rules (fst (RuleLibrary_init s))"
  by (simp add: get_enabled_rules_def RuleLibrary_init_rules RuleLibrary_init_objects
      rule_init_defs)

lemma RuleLibrary_init_members:
  assumes "r \<in> set (rules (fst (RuleLibrary_init s)))"
  shows "0 \<le> rule_weight (objects (snd (RuleLibrary_init s)) r)
     \<and> (\<forall>f. rule_class (objects (snd (RuleLibrary_init s)) r) \<noteq> OtherRule f)"
  using assms
  by (auto simp add: RuleLibrary_init_rules RuleLibrary_init_objects rule_init_defs)

lemma combo_score_range:
  "0 \<le> combo_score (evaluate_color_combo ts) \<and> combo_score (evaluate_color_combo ts) \<le> 100"
proof -
  have "combo_score (case clamp_and_praise acc of (sc, sg) \<Rightarrow>
          \<lparr>combo_score = sc, combo_suggestions = sg, analysis = a\<rparr>)
        = fst (clamp_and_praise acc)"
    for acc a
    by (simp add: case_prod_beta)
  then show ?thesis
    using clamp_and_praise_range
    by (simp add: evaluate_color_combo_def Let_def)
qed

lemma evaluate_outfit_score_range:
  "0 \<le> report_score (evaluate_outfit s cs st ctx tops bottoms)
   \<and> report_score (evaluate_outfit s cs st ctx tops bottoms) \<le> 100"
proof -
  let ?lib = "fst (RuleLibrary_init s)" and ?s1 = "snd (RuleLibrary_init s)"
  let ?data = "build_outfit_data cs st ctx tops bottoms"
  let ?rs = "get_enabled_rules ?s1 ?lib"
  let ?tws = "sum_list
     (map (\<lambda>r. score (evaluate (objects ?s1 r) ?data) * rule_weight (objects ?s1 r)) ?rs)"
  let ?tw = "sum_list (map (\<lambda>r. rule_weight (objects ?s1 r)) ?rs)"
  have eo: "evaluate_outfit s cs st ctx tops bottoms =
      RuleEvaluator_evaluate_outfit ?s1 ?lib cs st ctx tops bottoms"
    by (simp add: evaluate_outfit_def case_prod_beta)
  have mem: "0 \<le> rule_weight (objects ?s1 r)
      \<and> 0 \<le> score (evaluate (objects ?s1 r) ?data)
      \<and> score (evaluate (objects ?s1 r) ?data) \<le> 100" if "r \<in> set ?rs" for r
  proof -
    from that have "r \<in> set (rules ?lib)" by (simp add: RuleLibrary_init_enabled_rules)
    from RuleLibrary_init_members [OF this] show ?thesis
      using evaluate_score_range [of "objects ?s1 r" ?data] by simp
  qed
  have "0 \<le> ?tws \<and> ?tws \<le> 100 * ?tw"
    by (rule weighted_sum_range) (rule mem)
  then have "0 \<le> (if ?tw > 0 then ?tws / ?tw else 0)
      \<and> (if ?tw > 0 then ?tws / ?tw else 0) \<le> 100"
    using average_range by blast
  then have "0 \<le> round2 (if ?tw > 0 then ?tws / ?tw else 0)
      \<and> round2 (if ?tw > 0 then ?tws / ?tw else 0) \<le> 100"
    using round2_range by blast
  then show ?thesis
    unfolding eo report_score_eq Let_def .
qed

text \<open>
  C5. For every list of colours the combination score lies between 0 and 100; and for
  every input, \<^verbatim>\<open>evaluate_outfit\<close> on a new default library, in any store, reports a
  score between 0 and 100: each of the five rules scores in that range, the weights are
  positive, and rounding to two places keeps the bounds.
\<close>

theorem scores_in_range:
  "0 \<le> combo_score (evaluate_color_combo ts)
   \<and> combo_score (evaluate_color_combo ts) \<le> 100
   \<and> 0 \<le> report_score (evaluate_outfit s cs st ctx tops bottoms)
   \<and> report_score (evaluate_outfit s cs st ctx tops bottoms) \<le> 100"
  using combo_score_range [of ts] evaluate_outfit_score_range [of s cs st ctx tops bottoms]
  by simp

paragraph \<open>The outfit of the evaluator's test\<close>




















end
